theory Spec2Isabelle
  imports
    Complex_Main
    "HOL-Library.Multiset"
    "HOL-Library.Char_ord"
    "HOL-Library.List_Lexorder"
    "HOL-Library.Product_Lexorder"
begin

section \<open>Numbers and errors of the Python code\<close>

text \<open>
  The pipeline computes with Python and NumPy floating-point numbers. A number is modelled
  as a finite real, one of the two infinities, or the not-a-number value; rounding is not
  modelled (finite arithmetic is exact). Python's \<^verbatim>\<open>None\<close> is the \<^term>\<open>None\<close> of an
  option type around it, so the missing marker \<^verbatim>\<open>None\<close> and the float \<^verbatim>\<open>nan\<close> stay distinct,
  as they are in the source.
\<close>

datatype pyfloat = Fin real | PInf | NInf | NaN

datatype pyerror =
    ValueError string
  | IndexError
  | TypeError
  | ZeroDivisionError
  | OtherError string

text \<open>\<^verbatim>\<open>pd.isna\<close> on an optional float: true for \<^verbatim>\<open>None\<close> and for \<^verbatim>\<open>nan\<close>, false for
  every other number, the infinities included.\<close>

fun isna :: "pyfloat option \<Rightarrow> bool" where
  "isna None = True"
| "isna (Some NaN) = True"
| "isna (Some _) = False"

text \<open>The sum \<^verbatim>\<open>a + b\<close> of two floats.\<close>

fun padd :: "pyfloat \<Rightarrow> pyfloat \<Rightarrow> pyfloat" where
  "padd NaN _ = NaN"
| "padd _ NaN = NaN"
| "padd (Fin a) (Fin b) = Fin (a + b)"
| "padd (Fin _) PInf = PInf"
| "padd (Fin _) NInf = NInf"
| "padd PInf (Fin _) = PInf"
| "padd NInf (Fin _) = NInf"
| "padd PInf PInf = PInf"
| "padd NInf NInf = NInf"
| "padd PInf NInf = NaN"
| "padd NInf PInf = NaN"

text \<open>The product \<^verbatim>\<open>a * b\<close> of two floats.\<close>

fun pmul :: "pyfloat \<Rightarrow> pyfloat \<Rightarrow> pyfloat" where
  "pmul NaN _ = NaN"
| "pmul _ NaN = NaN"
| "pmul (Fin a) (Fin b) = Fin (a * b)"
| "pmul (Fin a) PInf = (if a = 0 then NaN else if 0 < a then PInf else NInf)"
| "pmul (Fin a) NInf = (if a = 0 then NaN else if 0 < a then NInf else PInf)"
| "pmul PInf (Fin b) = (if b = 0 then NaN else if 0 < b then PInf else NInf)"
| "pmul NInf (Fin b) = (if b = 0 then NaN else if 0 < b then NInf else PInf)"
| "pmul PInf PInf = PInf"
| "pmul NInf NInf = PInf"
| "pmul PInf NInf = NInf"
| "pmul NInf PInf = NInf"

text \<open>The quotient \<^verbatim>\<open>a / b\<close>: Python raises \<^verbatim>\<open>ZeroDivisionError\<close> on a zero divisor.\<close>

fun truediv :: "pyfloat \<Rightarrow> pyfloat \<Rightarrow> pyerror + pyfloat" where
  "truediv a (Fin b) =
     (if b = 0 then Inl ZeroDivisionError
      else (case a of
              NaN \<Rightarrow> Inr NaN
            | Fin x \<Rightarrow> Inr (Fin (x / b))
            | PInf \<Rightarrow> Inr (if 0 < b then PInf else NInf)
            | NInf \<Rightarrow> Inr (if 0 < b then NInf else PInf)))"
| "truediv NaN _ = Inr NaN"
| "truediv _ NaN = Inr NaN"
| "truediv (Fin _) PInf = Inr (Fin 0)"
| "truediv (Fin _) NInf = Inr (Fin 0)"
| "truediv PInf PInf = Inr NaN"
| "truediv PInf NInf = Inr NaN"
| "truediv NInf PInf = Inr NaN"
| "truediv NInf NInf = Inr NaN"

text \<open>The comparisons \<^verbatim>\<open>a <= b\<close> and \<^verbatim>\<open>a >= b\<close>; both are false as soon as one side is
  \<^verbatim>\<open>nan\<close>.\<close>

fun ple :: "pyfloat \<Rightarrow> pyfloat \<Rightarrow> bool" where
  "ple NaN _ = False"
| "ple _ NaN = False"
| "ple (Fin a) (Fin b) = (a \<le> b)"
| "ple NInf _ = True"
| "ple _ PInf = True"
| "ple PInf _ = False"
| "ple _ NInf = False"

definition pge :: "pyfloat \<Rightarrow> pyfloat \<Rightarrow> bool" where
  "pge a b = ple b a"

text \<open>The equality test \<^verbatim>\<open>a == b\<close>: \<^verbatim>\<open>nan\<close> equals nothing, itself included.\<close>

definition peq :: "pyfloat \<Rightarrow> pyfloat \<Rightarrow> bool" where
  "peq a b = (a = b \<and> a \<noteq> NaN)"

section \<open>core/kpi\_calculator.py: safe division\<close>

text \<open>
  \<^verbatim>\<open>if pd.isna(num) or pd.isna(den) or den == 0: return None\<close>
  \<^verbatim>\<open>return (num / den) * multiply\<close>

  The result is an error (a raised exception), \<^verbatim>\<open>None\<close>, or a float.
\<close>

definition safe_divide ::
  "pyfloat option \<Rightarrow> pyfloat option \<Rightarrow> pyfloat \<Rightarrow> pyerror + pyfloat option" where
  "safe_divide num den multiply =
     (if isna num \<or> isna den \<or> den = Some (Fin 0) then Inr None
      else (case (num, den) of
              (Some n, Some d) \<Rightarrow>
                (case truediv n d of
                   Inl e \<Rightarrow> Inl e
                 | Inr q \<Rightarrow> Inr (Some (pmul q multiply)))
            | _ \<Rightarrow> Inr None))"

section \<open>core/evaluator.py\<close>

record KPIValues =
  v_sgnb_add_success_rate :: "pyfloat option"
  v_sgnb_drop_rate :: "pyfloat option"
  v_dl_user_throughput :: "pyfloat option"
  v_ul_user_throughput :: "pyfloat option"
  v_dl_spectrum_efficiency :: "pyfloat option"

record KPIStatus =
  s_sgnb_add_success_rate :: string
  s_sgnb_drop_rate :: string
  s_dl_user_throughput :: string
  s_ul_user_throughput :: string
  s_dl_spectrum_efficiency :: string

text \<open>utils/constants.py, class \<^verbatim>\<open>KPIThreshold\<close>.\<close>

definition SGNB_ADD_SUCCESS_RATE_MIN :: pyfloat where "SGNB_ADD_SUCCESS_RATE_MIN = Fin 95"
definition SGNB_DROP_RATE_MAX :: pyfloat where "SGNB_DROP_RATE_MAX = Fin 5"
definition DL_THROUGHPUT_MIN :: pyfloat where "DL_THROUGHPUT_MIN = Fin 5"
definition UL_THROUGHPUT_MIN :: pyfloat where "UL_THROUGHPUT_MIN = Fin (3 / 2)"
definition DL_SPECTRUM_EFFICIENCY_MIN :: pyfloat where "DL_SPECTRUM_EFFICIENCY_MIN = Fin (9 / 10)"

text \<open>
  \<^verbatim>\<open>if value is None: return "N/A"\<close>
  \<^verbatim>\<open>if compare == ">=": return "PASS" if value >= threshold else "FAIL"\<close>
  \<^verbatim>\<open>else: return "PASS" if value <= threshold else "FAIL"\<close>
\<close>

definition evaluate_kpi :: "pyfloat option \<Rightarrow> pyfloat \<Rightarrow> string \<Rightarrow> string" where
  "evaluate_kpi v threshold compare =
     (case v of
        None \<Rightarrow> ''N/A''
      | Some x \<Rightarrow>
          if compare = ''>='' then (if pge x threshold then ''PASS'' else ''FAIL'')
          else (if ple x threshold then ''PASS'' else ''FAIL''))"

definition statuses :: "KPIStatus \<Rightarrow> string list" where
  "statuses st =
     [s_sgnb_add_success_rate st, s_sgnb_drop_rate st, s_dl_user_throughput st,
      s_ul_user_throughput st, s_dl_spectrum_efficiency st]"

definition evaluate_all :: "KPIValues \<Rightarrow> KPIStatus \<times> string" where
  "evaluate_all kpi_values =
     (let status = \<lparr>
            s_sgnb_add_success_rate =
              evaluate_kpi (v_sgnb_add_success_rate kpi_values) SGNB_ADD_SUCCESS_RATE_MIN ''>='',
            s_sgnb_drop_rate =
              evaluate_kpi (v_sgnb_drop_rate kpi_values) SGNB_DROP_RATE_MAX ''<='',
            s_dl_user_throughput =
              evaluate_kpi (v_dl_user_throughput kpi_values) DL_THROUGHPUT_MIN ''>='',
            s_ul_user_throughput =
              evaluate_kpi (v_ul_user_throughput kpi_values) UL_THROUGHPUT_MIN ''>='',
            s_dl_spectrum_efficiency =
              evaluate_kpi (v_dl_spectrum_efficiency kpi_values) DL_SPECTRUM_EFFICIENCY_MIN ''>=''
          \<rparr>;
          overall = (if ''FAIL'' \<in> set (statuses status) then ''FAIL'' else ''PASS'')
      in (status, overall))"

section \<open>Regular expressions, as the backtracking matcher reads them\<close>

text \<open>
  The source matches text with Python's \<^verbatim>\<open>re\<close> module, directly (\<^verbatim>\<open>TOWERID_PATTERN\<close>) and through
  \<^verbatim>\<open>datetime.strptime\<close>, which turns a format into a regular expression. The expressions used
  are built from the empty expression, character classes, greedy repetition of a class,
  concatenation and ordered alternatives. Text is a list of 8-bit characters; the classes of the model are the ASCII
  ones.

  \<open>rx_match r s\<close> lists the prefixes of \<open>s\<close> that \<open>r\<close> matches, in the order in which the
  backtracking matcher tries them: the longest repetition first, the left alternative first.
\<close>

datatype rx =
    Eps
  | Cls "char list"
  | Plus "char list"
  | Cat rx rx
  | Alt rx rx

fun rx_match :: "rx \<Rightarrow> string \<Rightarrow> string list" where
  "rx_match Eps s = [[]]"
| "rx_match (Cls cs) s =
     (case s of [] \<Rightarrow> [] | c # _ \<Rightarrow> if c \<in> set cs then [[c]] else [])"
| "rx_match (Plus cs) s =
     map (\<lambda>k. take k s) (rev [1 ..< Suc (length (takeWhile (\<lambda>c. c \<in> set cs) s))])"
| "rx_match (Cat a b) s =
     concat (map (\<lambda>m. map ((@) m) (rx_match b (drop (length m) s))) (rx_match a s))"
| "rx_match (Alt a b) s = rx_match a s @ rx_match b s"

text \<open>A pattern is a sequence of expressions; a match of the sequence is the list of the
  pieces of text its members matched, one after the other.\<close>

fun seq_match :: "rx list \<Rightarrow> string \<Rightarrow> string list list" where
  "seq_match [] s = [[]]"
| "seq_match (r # rs) s =
     concat (map (\<lambda>m. map ((#) m) (seq_match rs (drop (length m) s))) (rx_match r s))"

text \<open>\<^verbatim>\<open>re.match(pattern, s)\<close>: the first match at the start of the text, if any.\<close>

definition re_match :: "rx list \<Rightarrow> string \<Rightarrow> string list option" where
  "re_match rs s = (case seq_match rs s of [] \<Rightarrow> None | p # _ \<Rightarrow> Some p)"

text \<open>\<^verbatim>\<open>re.search(pattern, s)\<close>: the first match at the leftmost position that has one; the
  positions run from the start of the text to its end.\<close>

fun re_search :: "rx list \<Rightarrow> string \<Rightarrow> string list option" where
  "re_search rs [] = re_match rs []"
| "re_search rs (c # cs) =
     (case re_match rs (c # cs) of Some p \<Rightarrow> Some p | None \<Rightarrow> re_search rs cs)"

definition upper :: "char list" where
  "upper = ''ABCDEFGHIJKLMNOPQRSTUVWXYZ''"

definition digit :: "char list" where
  "digit = ''0123456789''"

text \<open>\<^verbatim>\<open>int(text)\<close> on a piece of matched text: the number its decimal digits spell (a
  blank or a sign before or between them is passed over).\<close>

definition digit_val :: "char \<Rightarrow> nat" where
  "digit_val c = of_char c - 48"

definition int_of :: "string \<Rightarrow> nat" where
  "int_of s = foldl (\<lambda>n c. 10 * n + digit_val c) 0 (filter (\<lambda>c. c \<in> set digit) s)"

section \<open>core/data\_parser.py: the site identifier\<close>

text \<open>utils/constants.py: \<^verbatim>\<open>TOWERID_PATTERN = r"[A-Z]+-[A-Z]+-[A-Z]+-\d+"\<close>.\<close>

definition TOWERID_PATTERN :: "rx list" where
  "TOWERID_PATTERN =
     [Plus upper, Cls ''-'', Plus upper, Cls ''-'', Plus upper, Cls ''-'', Plus digit]"

text \<open>
  \<^verbatim>\<open>match = re.search(TOWERID_PATTERN, str(managed_element_name))\<close>
  \<^verbatim>\<open>return match.group(0) if match else "UNKNOWN"\<close>
\<close>

definition extract_tower_id :: "string \<Rightarrow> string" where
  "extract_tower_id managed_element_name =
     (case re_search TOWERID_PATTERN managed_element_name of
        Some p \<Rightarrow> concat p
      | None \<Rightarrow> ''UNKNOWN'')"

text \<open>The shape of a match of \<open>TOWERID_PATTERN\<close>, piece by piece: three non-empty runs of
  upper-case letters and a non-empty run of digits, joined by dashes.\<close>

definition towerid_shape :: "string list \<Rightarrow> bool" where
  "towerid_shape p \<longleftrightarrow>
     (\<exists>u1 u2 u3 d. p = [u1, ''-'', u2, ''-'', u3, ''-'', d] \<and>
        u1 \<noteq> [] \<and> set u1 \<subseteq> set upper \<and> u2 \<noteq> [] \<and> set u2 \<subseteq> set upper \<and>
        u3 \<noteq> [] \<and> set u3 \<subseteq> set upper \<and> d \<noteq> [] \<and> set d \<subseteq> set digit)"

section \<open>Tables\<close>

text \<open>
  A cell of a \<^verbatim>\<open>DataFrame\<close> is a text or a number (an integer or a float, \<^verbatim>\<open>nan\<close> for an empty
  field). A table has its column names and its rows; the code reads columns by position.
\<close>

datatype cell = Str string | Num pyfloat

record table =
  columns :: "string list"
  rows :: "cell list list"

section \<open>pandas.to\_numeric\<close>

text \<open>
  \<^verbatim>\<open>pd.to_numeric(series, errors="coerce")\<close> on one text: the number the text spells, or \<^verbatim>\<open>nan\<close>
  when it spells none. The model reads what the parser of pandas reads: blanks around the
  number, a sign, decimal digits with an optional fraction, an optional exponent; and the
  words \<^verbatim>\<open>inf\<close> and \<^verbatim>\<open>infinity\<close> in any case, with an optional sign, which give an infinity.
  A decimal numeral gives the real number it denotes (no rounding, no overflow).
\<close>

definition blank :: "char list" where
  "blank = [CHR '' '', CHR 0x09, CHR 0x0A, CHR 0x0B, CHR 0x0C, CHR 0x0D]"

definition opt :: "rx \<Rightarrow> rx" where
  "opt r = Alt r Eps"

text \<open>The members of the numeral: blanks, sign, integer digits, fraction, exponent, blanks.\<close>

definition NUMERAL :: "rx list" where
  "NUMERAL =
     [opt (Plus blank),
      opt (Cls ''+-''),
      opt (Plus digit),
      opt (Cat (Cls ''.'') (opt (Plus digit))),
      opt (Cat (Cls ''eE'') (Cat (opt (Cls ''+-'')) (Plus digit))),
      opt (Plus blank)]"

definition digits_of :: "string \<Rightarrow> string" where
  "digits_of s = filter (\<lambda>c. c \<in> set digit) s"

definition lower :: "string \<Rightarrow> string" where
  "lower s = map (\<lambda>c. if c \<in> set upper then char_of (of_char c + (32::nat)) else c) s"

definition numeral_value :: "string list \<Rightarrow> real option" where
  "numeral_value pieces =
     (case pieces of
        [_, sign, ip, fp, ep, _] \<Rightarrow>
          if digits_of ip = [] \<and> digits_of fp = [] then None
          else
            (let mant = real (int_of ip) + real (int_of fp) / 10 ^ length (digits_of fp);
                 scaled = (if CHR ''-'' \<in> set ep then mant / 10 ^ int_of ep
                           else mant * 10 ^ int_of ep)
             in Some (if sign = ''-'' then - scaled else scaled))
      | _ \<Rightarrow> None)"

definition to_numeric :: "string \<Rightarrow> pyfloat" where
  "to_numeric s =
     (if lower s \<in> {''inf'', ''+inf'', ''infinity'', ''+infinity''} then PInf
      else if lower s \<in> {''-inf'', ''-infinity''} then NInf
      else (case re_match NUMERAL s of
              None \<Rightarrow> NaN
            | Some pieces \<Rightarrow>
                if length (concat pieces) \<noteq> length s then NaN
                else (case numeral_value pieces of None \<Rightarrow> NaN | Some r \<Rightarrow> Fin r)))"

section \<open>core/data\_cleaner.py\<close>

text \<open>
  \<^verbatim>\<open>col.astype(str).str.replace("%", "", regex=False).str.replace(",", "", regex=False)\<close>
  \<^verbatim>\<open>   .replace("", None)\<close>, then \<^verbatim>\<open>pd.to_numeric(..., errors="coerce")\<close>.

  A text cell loses its percent signs and commas; the empty text becomes \<^verbatim>\<open>None\<close>, which the
  coercion reads as \<^verbatim>\<open>nan\<close>; any other text is coerced. A cell that is a number already is
  written by \<^verbatim>\<open>astype(str)\<close> as a numeral (or \<^verbatim>\<open>nan\<close>, \<^verbatim>\<open>inf\<close>) without percent sign or comma, and
  the coercion reads the same number back: the cell is unchanged.
\<close>

definition strip_formatting :: "string \<Rightarrow> string" where
  "strip_formatting s = filter (\<lambda>c. c \<noteq> CHR '','') (filter (\<lambda>c. c \<noteq> CHR ''%'') s)"

definition clean_cell :: "cell \<Rightarrow> cell" where
  "clean_cell c =
     (case c of
        Str s \<Rightarrow> (if strip_formatting s = [] then Num NaN else Num (to_numeric (strip_formatting s)))
      | Num x \<Rightarrow> Num x)"

text \<open>
  \<^verbatim>\<open>for col_idx in numeric_columns:\<close>
  \<^verbatim>\<open>    if col_idx < len(df_clean.columns): ...\<close>

  The loop works on a copy and rewrites one column per round; a position outside the table
  is skipped. Column positions are natural numbers.
\<close>

definition clean_column :: "nat \<Rightarrow> table \<Rightarrow> table" where
  "clean_column col_idx df = df\<lparr>rows := map (\<lambda>r. r[col_idx := clean_cell (r ! col_idx)]) (rows df)\<rparr>"

definition clean_dataframe :: "table \<Rightarrow> nat list \<Rightarrow> table" where
  "clean_dataframe df numeric_columns =
     fold (\<lambda>col_idx df_clean.
             if col_idx < length (columns df_clean) then clean_column col_idx df_clean
             else df_clean)
       numeric_columns df"

text \<open>What the loop does to one row of a table with \<open>n\<close> columns.\<close>

definition clean_row :: "nat \<Rightarrow> nat list \<Rightarrow> cell list \<Rightarrow> cell list" where
  "clean_row n cols r = fold (\<lambda>i r. if i < n then r[i := clean_cell (r ! i)] else r) cols r"

text \<open>The reading of the Normalized Record invariant: a finite number or the missing marker.\<close>

definition finite_or_missing :: "cell \<Rightarrow> bool" where
  "finite_or_missing c = (case c of Num (Fin _) \<Rightarrow> True | Num NaN \<Rightarrow> True | _ \<Rightarrow> False)"

definition is_number :: "cell \<Rightarrow> bool" where
  "is_number c = (case c of Num _ \<Rightarrow> True | Str _ \<Rightarrow> False)"

section \<open>datetime.strptime\<close>

text \<open>
  \<^verbatim>\<open>datetime.strptime(data_string, format)\<close>, as CPython's \<^verbatim>\<open>_strptime\<close> does it: the format
  becomes a regular expression (a directive becomes a group, a run of blanks becomes
  \<^verbatim>\<open>\s+\<close>, any other character stands for itself), the expression is matched at the start of
  the text, and the match must cover the whole text. The groups are then read as numbers and
  the date and time are range-checked. Every failure is a \<^verbatim>\<open>ValueError\<close>. The directives of the
  model are those the source's formats use; the formats contain no letters outside
  directives, so the matcher's case-insensitivity plays no role.
\<close>

record datetime =
  dt_year :: nat
  dt_month :: nat
  dt_day :: nat
  dt_hour :: nat
  dt_minute :: nat
  dt_second :: nat

text \<open>A calendar date: year, month, day. Dates are ordered year first.\<close>

type_synonym date = "nat \<times> nat \<times> nat"

definition date_of :: "datetime \<Rightarrow> date" where
  "date_of dt = (dt_year dt, dt_month dt, dt_day dt)"

definition whitespace :: "char list" where
  "whitespace = [CHR '' '', CHR 0x09, CHR 0x0A, CHR 0x0B, CHR 0x0C, CHR 0x0D,
     CHR 0x1C, CHR 0x1D, CHR 0x1E, CHR 0x1F]"

definition digit19 :: "char list" where
  "digit19 = ''123456789''"

text \<open>
  \<^verbatim>\<open>'d': r"(?P<d>3[0-1]|[1-2]\d|0[1-9]|[1-9]| [1-9])"\<close>
  \<^verbatim>\<open>'H': r"(?P<H>2[0-3]|[0-1]\d|\d)"\<close>
  \<^verbatim>\<open>'M': r"(?P<M>[0-5]\d|\d)"\<close>
  \<^verbatim>\<open>'S': r"(?P<S>6[0-1]|[0-5]\d|\d)"\<close>
  \<^verbatim>\<open>'m': r"(?P<m>1[0-2]|0[1-9]|[1-9])"\<close>
  \<^verbatim>\<open>'Y': r"(?P<Y>\d\d\d\d)"\<close>
\<close>

definition directive :: "char \<Rightarrow> rx option" where
  "directive d =
     (if d = CHR ''d'' then
        Some (Alt (Cat (Cls ''3'') (Cls ''01''))
             (Alt (Cat (Cls ''12'') (Cls digit))
             (Alt (Cat (Cls ''0'') (Cls digit19))
             (Alt (Cls digit19)
                  (Cat (Cls '' '') (Cls digit19))))))
      else if d = CHR ''H'' then
        Some (Alt (Cat (Cls ''2'') (Cls ''0123''))
             (Alt (Cat (Cls ''01'') (Cls digit))
                  (Cls digit)))
      else if d = CHR ''M'' then
        Some (Alt (Cat (Cls ''012345'') (Cls digit)) (Cls digit))
      else if d = CHR ''S'' then
        Some (Alt (Cat (Cls ''6'') (Cls ''01''))
             (Alt (Cat (Cls ''012345'') (Cls digit))
                  (Cls digit)))
      else if d = CHR ''m'' then
        Some (Alt (Cat (Cls ''1'') (Cls ''012''))
             (Alt (Cat (Cls ''0'') (Cls digit19))
                  (Cls digit19)))
      else if d = CHR ''Y'' then
        Some (Cat (Cls digit) (Cat (Cls digit) (Cat (Cls digit) (Cls digit))))
      else None)"

text \<open>The expression of a format, member by member, each with the directive it came from
  (\<open>None\<close> for literal text). No result stands for a directive the model does not know or
  a stray \<^verbatim>\<open>%\<close>.\<close>

function format_regex :: "string \<Rightarrow> (char option \<times> rx) list option" where
  "format_regex [] = Some []"
| "format_regex (c # cs) =
     (if c = CHR ''%'' then
        (case cs of
           [] \<Rightarrow> None
         | d # ds \<Rightarrow>
             (case directive d of
                None \<Rightarrow> None
              | Some r \<Rightarrow> map_option ((#) (Some d, r)) (format_regex ds)))
      else if c \<in> set whitespace then
        map_option ((#) (None, Plus whitespace))
          (format_regex (dropWhile (\<lambda>x. x \<in> set whitespace) cs))
      else map_option ((#) (None, Cls [c])) (format_regex cs))"
  by pat_completeness auto
termination
  by (relation "measure length") (auto simp: length_dropWhile_le less_Suc_eq_le)

definition is_leap :: "nat \<Rightarrow> bool" where
  "is_leap y \<longleftrightarrow> y mod 4 = 0 \<and> (y mod 100 \<noteq> 0 \<or> y mod 400 = 0)"

definition days_in_month :: "nat \<Rightarrow> nat \<Rightarrow> nat" where
  "days_in_month y m =
     (if m = 2 then (if is_leap y then 29 else 28)
      else if m = 4 \<or> m = 6 \<or> m = 9 \<or> m = 11 then 30
      else 31)"

text \<open>The range check of the \<^verbatim>\<open>datetime\<close> constructor.\<close>

definition valid_datetime :: "datetime \<Rightarrow> bool" where
  "valid_datetime dt \<longleftrightarrow>
     1 \<le> dt_year dt \<and> dt_year dt \<le> 9999 \<and>
     1 \<le> dt_month dt \<and> dt_month dt \<le> 12 \<and>
     1 \<le> dt_day dt \<and> dt_day dt \<le> days_in_month (dt_year dt) (dt_month dt) \<and>
     dt_hour dt \<le> 23 \<and> dt_minute dt \<le> 59 \<and> dt_second dt \<le> 59"

definition group_int :: "(char option \<rightharpoonup> string) \<Rightarrow> char \<Rightarrow> nat \<Rightarrow> nat" where
  "group_int found d dflt = (case found (Some d) of None \<Rightarrow> dflt | Some t \<Rightarrow> int_of t)"

definition strptime :: "string \<Rightarrow> string \<Rightarrow> pyerror + datetime" where
  "strptime data_string format =
     (case format_regex format of
        None \<Rightarrow> Inl (ValueError ''bad directive in format'')
      | Some items \<Rightarrow>
          (case re_match (map snd items) data_string of
             None \<Rightarrow> Inl (ValueError ''time data does not match format'')
           | Some pieces \<Rightarrow>
               if length (concat pieces) \<noteq> length data_string
               then Inl (ValueError ''unconverted data remains'')
               else
                 (let found = map_of (zip (map fst items) pieces);
                      dt = \<lparr>dt_year = group_int found (CHR ''Y'') 1900,
                            dt_month = group_int found (CHR ''m'') 1,
                            dt_day = group_int found (CHR ''d'') 1,
                            dt_hour = group_int found (CHR ''H'') 0,
                            dt_minute = group_int found (CHR ''M'') 0,
                            dt_second = group_int found (CHR ''S'') 0\<rparr>
                  in if valid_datetime dt then Inr dt
                     else Inl (ValueError ''value out of range''))))"

section \<open>core/data\_parser.py: the report date\<close>

text \<open>
  \<^verbatim>\<open>for fmt in ["%m/%d/%Y %H:%M", "%m/%d/%Y", "%Y-%m-%d %H:%M:%S", "%Y-%m-%d"]:\<close>
  \<^verbatim>\<open>    try: return datetime.strptime(str(date_str), fmt).date()\<close>
  \<^verbatim>\<open>    except ValueError: continue\<close>

  The loop returns the date of the first format that parses, passes on an exception that
  is not a \<^verbatim>\<open>ValueError\<close>, or ends without a result.
\<close>

definition formats :: "string list" where
  "formats = [''%m/%d/%Y %H:%M'', ''%m/%d/%Y'', ''%Y-%m-%d %H:%M:%S'', ''%Y-%m-%d'']"

fun try_formats :: "string \<Rightarrow> string list \<Rightarrow> pyerror + date option" where
  "try_formats s [] = Inr None"
| "try_formats s (fmt # fmts) =
     (case strptime s fmt of
        Inr dt \<Rightarrow> Inr (Some (date_of dt))
      | Inl (ValueError _) \<Rightarrow> try_formats s fmts
      | Inl e \<Rightarrow> Inl e)"

text \<open>
  \<^verbatim>\<open>return pd.to_datetime(date_str).date()\<close>

  The generic parser of pandas is a parameter of the model: given the cell, it raises, or
  returns a timestamp, or returns the not-a-time marker \<^verbatim>\<open>NaT\<close> (the \<open>None\<close> of the option),
  whose \<^verbatim>\<open>.date()\<close> is \<^verbatim>\<open>NaT\<close> again. \<^verbatim>\<open>str(date_str)\<close> of a text cell is the text. The text of a
  number cell consists of digits, a sign, a point, an exponent or the words \<^verbatim>\<open>nan\<close> and \<^verbatim>\<open>inf\<close>:
  it has no \<^verbatim>\<open>/\<close> and no four digits followed by \<^verbatim>\<open>-\<close>, so none of the four formats matches it
  and the loop ends without a result.
\<close>

definition parse_date_try ::
  "(cell \<Rightarrow> pyerror + datetime option) \<Rightarrow> cell \<Rightarrow> pyerror + date option" where
  "parse_date_try to_datetime date_str =
     (case (case date_str of Str s \<Rightarrow> try_formats s formats | Num _ \<Rightarrow> Inr None) of
        Inl e \<Rightarrow> Inl e
      | Inr (Some d) \<Rightarrow> Inr (Some d)
      | Inr None \<Rightarrow>
          (case to_datetime date_str of
             Inl e \<Rightarrow> Inl e
           | Inr ts \<Rightarrow> Inr (map_option date_of ts)))"

text \<open>
  \<^verbatim>\<open>try: ... except: return datetime(2026, 1, 1).date()\<close>

  The bare \<^verbatim>\<open>except\<close> catches every exception of the body, so the function itself has no
  raising outcome: its result is a date or \<^verbatim>\<open>NaT\<close>.
\<close>

definition parse_date :: "(cell \<Rightarrow> pyerror + datetime option) \<Rightarrow> cell \<Rightarrow> date option" where
  "parse_date to_datetime date_str =
     (case parse_date_try to_datetime date_str of
        Inl _ \<Rightarrow> Some (2026, 1, 1)
      | Inr d \<Rightarrow> d)"

section \<open>core/data\_loader.py\<close>

text \<open>
  An archive is the list of its members in the order of \<^verbatim>\<open>namelist()\<close>. A member is its name
  and what \<^verbatim>\<open>pd.read_csv(f, header=0, low_memory=False)\<close> makes of its bytes: a table, or the
  exception the reader raises (on an empty file, for one).
\<close>

type_synonym archive = "(string \<times> (pyerror + table)) list"

definition endswith :: "string \<Rightarrow> string \<Rightarrow> bool" where
  "endswith s suffix \<longleftrightarrow>
     length suffix \<le> length s \<and> drop (length s - length suffix) s = suffix"

text \<open>\<^verbatim>\<open>zip_ref.open(name)\<close>: of several members with one name, the last is opened.\<close>

definition zip_open :: "archive \<Rightarrow> string \<Rightarrow> pyerror + table" where
  "zip_open z name =
     (case map_of (rev z) name of
        Some r \<Rightarrow> r
      | None \<Rightarrow> Inl (OtherError ''KeyError''))"

text \<open>The loop over \<^verbatim>\<open>csv_files\<close>: the first exception ends it.\<close>

fun read_all :: "archive \<Rightarrow> string list \<Rightarrow> pyerror + table list" where
  "read_all z [] = Inr []"
| "read_all z (csv_file # csv_files) =
     (case zip_open z csv_file of
        Inl e \<Rightarrow> Inl e
      | Inr df \<Rightarrow>
          (case read_all z csv_files of
             Inl e \<Rightarrow> Inl e
           | Inr dfs \<Rightarrow> Inr (df # dfs)))"

text \<open>
  \<^verbatim>\<open>pd.concat(dfs, ignore_index=True)\<close>: the columns of the result are the columns of the
  tables in the order of their first appearance; the rows follow table by table, each row
  laid out on the columns of the result, with \<^verbatim>\<open>nan\<close> where its table has no such column.
  Tables are rectangular; a position past the end of a row reads as \<^verbatim>\<open>nan\<close>.
\<close>

fun index_of :: "'a \<Rightarrow> 'a list \<Rightarrow> nat option" where
  "index_of x [] = None"
| "index_of x (y # ys) = (if x = y then Some 0 else map_option Suc (index_of x ys))"

definition cell_at :: "cell list \<Rightarrow> nat \<Rightarrow> cell" where
  "cell_at r i = (if i < length r then r ! i else Num NaN)"

definition union_columns :: "table list \<Rightarrow> string list" where
  "union_columns dfs = rev (remdups (rev (concat (map columns dfs))))"

definition reindex :: "string list \<Rightarrow> table \<Rightarrow> cell list list" where
  "reindex cols df =
     map (\<lambda>r. map (\<lambda>c. case index_of c (columns df) of
                          None \<Rightarrow> Num NaN
                        | Some i \<Rightarrow> cell_at r i) cols)
       (rows df)"

definition pd_concat :: "table list \<Rightarrow> pyerror + table" where
  "pd_concat dfs =
     (if dfs = [] then Inl (ValueError ''No objects to concatenate'')
      else Inr \<lparr>columns = union_columns dfs,
                rows = concat (map (reindex (union_columns dfs)) dfs)\<rparr>)"

definition eligible :: "string \<Rightarrow> bool" where
  "eligible f \<longleftrightarrow> endswith f ''.csv'' \<and> \<not> endswith f ''_KPI(Counter).csv''"

definition load_from_zip :: "archive \<Rightarrow> pyerror + table" where
  "load_from_zip z =
     (let csv_files = filter eligible (map fst z)
      in if csv_files = [] then Inl (ValueError ''No valid CSV files found in ZIP archive'')
         else (case read_all z csv_files of
                 Inl e \<Rightarrow> Inl e
               | Inr dfs \<Rightarrow> pd_concat dfs))"

text \<open>The ingestion error of the loader, and the tables of the eligible members in the
  order of the archive.\<close>

definition no_csv :: pyerror where
  "no_csv = ValueError ''No valid CSV files found in ZIP archive''"

definition eligible_tables :: "archive \<Rightarrow> table list" where
  "eligible_tables z = map (\<lambda>f. projr (zip_open z f)) (filter eligible (map fst z))"

section \<open>core/data\_parser.py: the derived columns\<close>

text \<open>utils/constants.py, class \<^verbatim>\<open>ColumnIndex\<close>.\<close>

definition BEGIN_TIME :: nat where "BEGIN_TIME = 0"
definition MANAGED_ELEMENT_NAME :: nat where "MANAGED_ELEMENT_NAME = 6"
definition SN_ADDITION_NUM :: nat where "SN_ADDITION_NUM = 21"
definition ABNORMAL_SN_RELEASE_NUM :: nat where "ABNORMAL_SN_RELEASE_NUM = 24"
definition DL_SE_MAPPING_NUM :: nat where "DL_SE_MAPPING_NUM = 35"
definition DL_UE_THROUGHPUT_NUM :: nat where "DL_UE_THROUGHPUT_NUM = 90"
definition UL_UE_THROUGHPUT_NUM :: nat where "UL_UE_THROUGHPUT_NUM = 91"
definition SN_ADDITION_DEN :: nat where "SN_ADDITION_DEN = 22"
definition ABNORMAL_SN_RELEASE_DEN :: nat where "ABNORMAL_SN_RELEASE_DEN = 25"
definition DL_SE_MAPPING_DEN :: nat where "DL_SE_MAPPING_DEN = 36"
definition DL_UE_THROUGHPUT_DEN :: nat where "DL_UE_THROUGHPUT_DEN = 121"
definition UL_UE_THROUGHPUT_DEN :: nat where "UL_UE_THROUGHPUT_DEN = 122"

text \<open>
  The parsed table has the columns of the cleaned table and, after them, the two derived
  columns \<^verbatim>\<open>TOWERID\<close> and \<^verbatim>\<open>DATE\<close>; a row keeps its cells and carries the two derived values.
  The model is for tables in the layout of the input files: none of their columns is itself
  named \<^verbatim>\<open>TOWERID\<close> or \<^verbatim>\<open>DATE\<close> (such a column would be overwritten in place).
\<close>

record parsed_row =
  cells :: "cell list"
  TOWERID :: string
  DATE :: "date option"

record parsed_table =
  pcolumns :: "string list"
  prows :: "parsed_row list"

text \<open>\<^verbatim>\<open>extract_tower_id\<close> on a cell: \<^verbatim>\<open>str(managed_element_name)\<close> of a text is the text; the text
  of a number has no upper-case letter, so the pattern has no match in it.\<close>

definition tower_of_cell :: "cell \<Rightarrow> string" where
  "tower_of_cell c = (case c of Str s \<Rightarrow> extract_tower_id s | Num _ \<Rightarrow> ''UNKNOWN'')"

text \<open>
  \<^verbatim>\<open>df_parsed["TOWERID"] = df_parsed.iloc[:, ColumnIndex.MANAGED_ELEMENT_NAME].apply(...)\<close>
  \<^verbatim>\<open>df_parsed["DATE"] = df_parsed.iloc[:, ColumnIndex.BEGIN_TIME].apply(DataParser.parse_date)\<close>

  \<^verbatim>\<open>iloc\<close> raises \<^verbatim>\<open>IndexError\<close> for a position outside the table.
\<close>

definition add_parsed_columns ::
  "(cell \<Rightarrow> pyerror + datetime option) \<Rightarrow> table \<Rightarrow> pyerror + parsed_table" where
  "add_parsed_columns to_datetime df =
     (if length (columns df) \<le> MANAGED_ELEMENT_NAME then Inl IndexError
      else if length (columns df) \<le> BEGIN_TIME then Inl IndexError
      else Inr \<lparr>pcolumns = columns df @ [''TOWERID'', ''DATE''],
                prows = map (\<lambda>r. \<lparr>cells = r,
                                    TOWERID = tower_of_cell (cell_at r MANAGED_ELEMENT_NAME),
                                    DATE = parse_date to_datetime (cell_at r BEGIN_TIME)\<rparr>)
                          (rows df)\<rparr>)"

section \<open>core/kpi\_calculator.py: the KPIs of a group\<close>

text \<open>Sequencing of steps that may raise: the first exception is the outcome.\<close>

definition ebind :: "pyerror + 'a \<Rightarrow> ('a \<Rightarrow> pyerror + 'b) \<Rightarrow> pyerror + 'b" where
  "ebind m f = (case m of Inl e \<Rightarrow> Inl e | Inr x \<Rightarrow> f x)"

text \<open>\<^verbatim>\<open>Series.sum()\<close> of a numeric column: \<^verbatim>\<open>nan\<close> entries are skipped, the sum of no entry is
  zero.\<close>

definition nansum :: "pyfloat list \<Rightarrow> pyfloat" where
  "nansum xs = foldl padd (Fin 0) (filter (\<lambda>x. x \<noteq> NaN) xs)"

definition series_sum :: "cell list \<Rightarrow> pyerror + pyfloat" where
  "series_sum col =
     (if list_all is_number col
      then Inr (nansum (map (\<lambda>c. case c of Num x \<Rightarrow> x | Str _ \<Rightarrow> NaN) col))
      else Inl TypeError)"

text \<open>
  \<^verbatim>\<open>group.iloc[:, i].sum()\<close>. A position past the last column raises \<^verbatim>\<open>IndexError\<close>. The last
  two columns of a group are the derived ones, texts and dates: a KPI position falls on
  them only for a table narrower than the input layout, and the model answers that case,
  like a sum over a column that still holds text, with \<^verbatim>\<open>TypeError\<close>.
\<close>

definition column_sum :: "parsed_table \<Rightarrow> nat \<Rightarrow> pyerror + pyfloat" where
  "column_sum g i =
     (if length (pcolumns g) \<le> i then Inl IndexError
      else if length (pcolumns g) - 2 \<le> i then Inl TypeError
      else series_sum (map (\<lambda>r. cell_at (cells r) i) (prows g)))"

definition calculate_kpis :: "parsed_table \<Rightarrow> pyerror + KPIValues" where
  "calculate_kpis g =
     ebind (column_sum g SN_ADDITION_NUM) (\<lambda>sn_add_num.
     ebind (column_sum g SN_ADDITION_DEN) (\<lambda>sn_add_den.
     ebind (column_sum g ABNORMAL_SN_RELEASE_NUM) (\<lambda>abn_rel_num.
     ebind (column_sum g ABNORMAL_SN_RELEASE_DEN) (\<lambda>abn_rel_den.
     ebind (column_sum g DL_UE_THROUGHPUT_NUM) (\<lambda>dl_tp_num.
     ebind (column_sum g DL_UE_THROUGHPUT_DEN) (\<lambda>dl_tp_den.
     ebind (column_sum g UL_UE_THROUGHPUT_NUM) (\<lambda>ul_tp_num.
     ebind (column_sum g UL_UE_THROUGHPUT_DEN) (\<lambda>ul_tp_den.
     ebind (column_sum g DL_SE_MAPPING_NUM) (\<lambda>dl_se_num.
     ebind (column_sum g DL_SE_MAPPING_DEN) (\<lambda>dl_se_den.
     ebind (safe_divide (Some sn_add_num) (Some sn_add_den) (Fin 100)) (\<lambda>a.
     ebind (safe_divide (Some abn_rel_num) (Some abn_rel_den) (Fin 100)) (\<lambda>b.
     ebind (safe_divide (Some dl_tp_num) (Some dl_tp_den) (Fin 1)) (\<lambda>c.
     ebind (safe_divide (Some ul_tp_num) (Some ul_tp_den) (Fin 1)) (\<lambda>d.
     ebind (safe_divide (Some dl_se_num) (Some dl_se_den) (Fin 1)) (\<lambda>e.
     Inr \<lparr>v_sgnb_add_success_rate = a, v_sgnb_drop_rate = b,
          v_dl_user_throughput = c, v_ul_user_throughput = d,
          v_dl_spectrum_efficiency = e\<rparr>)))))))))))))))"

section \<open>gui/main\_window.py: the pipeline of \<^verbatim>\<open>ProcessingThread.run\<close>\<close>

record TowerReport =
  tower_id :: string
  report_date :: date
  kpi_values :: KPIValues
  kpi_status :: KPIStatus
  overall_status :: string

definition numeric_cols :: "nat list" where
  "numeric_cols =
     [SN_ADDITION_NUM, SN_ADDITION_DEN,
      ABNORMAL_SN_RELEASE_NUM, ABNORMAL_SN_RELEASE_DEN,
      DL_UE_THROUGHPUT_NUM, DL_UE_THROUGHPUT_DEN,
      UL_UE_THROUGHPUT_NUM, UL_UE_THROUGHPUT_DEN,
      DL_SE_MAPPING_NUM, DL_SE_MAPPING_DEN]"

text \<open>
  \<^verbatim>\<open>grouped = df_parsed.groupby(['TOWERID', 'DATE'])\<close>: one group per pair of site and date
  that occurs, in ascending order of the pairs; a row whose date is \<^verbatim>\<open>NaT\<close> belongs to no
  group. A group is the table of the rows with its key, in their order.
\<close>

definition row_key :: "parsed_row \<Rightarrow> (string \<times> date) option" where
  "row_key r = map_option (Pair (TOWERID r)) (DATE r)"

definition group_keys :: "parsed_table \<Rightarrow> (string \<times> date) list" where
  "group_keys df_parsed = sort (remdups (List.map_filter row_key (prows df_parsed)))"

definition get_group :: "parsed_table \<Rightarrow> string \<times> date \<Rightarrow> parsed_table" where
  "get_group df_parsed k = df_parsed\<lparr>prows := filter (\<lambda>r. row_key r = Some k) (prows df_parsed)\<rparr>"

text \<open>
  \<^verbatim>\<open>for (tower_id, dt), group in grouped:\<close>
  \<^verbatim>\<open>    kpi_values = KPICalculator.calculate_kpis(group)\<close>
  \<^verbatim>\<open>    kpi_status, overall = Evaluator.evaluate_all(kpi_values)\<close>
  \<^verbatim>\<open>    reports.append(TowerReport(tower_id, dt, kpi_values, kpi_status, overall))\<close>
\<close>

definition make_report :: "parsed_table \<Rightarrow> string \<times> date \<Rightarrow> pyerror + TowerReport" where
  "make_report df_parsed k =
     ebind (calculate_kpis (get_group df_parsed k)) (\<lambda>kv.
       Inr \<lparr>tower_id = fst k, report_date = snd k, kpi_values = kv,
            kpi_status = fst (evaluate_all kv), overall_status = snd (evaluate_all kv)\<rparr>)"

fun collect :: "('a \<Rightarrow> pyerror + 'b) \<Rightarrow> 'a list \<Rightarrow> pyerror + 'b list" where
  "collect f [] = Inr []"
| "collect f (x # xs) =
     (case f x of
        Inl e \<Rightarrow> Inl e
      | Inr y \<Rightarrow> (case collect f xs of Inl e \<Rightarrow> Inl e | Inr ys \<Rightarrow> Inr (y # ys)))"

text \<open>Steps 2 to 4 of \<^verbatim>\<open>run\<close>, from the loaded table to the reports, and the whole of steps
  1 to 4.\<close>

definition process_table ::
  "(cell \<Rightarrow> pyerror + datetime option) \<Rightarrow> table \<Rightarrow> pyerror + TowerReport list" where
  "process_table to_datetime df =
     (let df_clean = clean_dataframe df numeric_cols
      in ebind (add_parsed_columns to_datetime df_clean) (\<lambda>df_parsed.
           collect (make_report df_parsed) (group_keys df_parsed)))"

definition run_pipeline ::
  "(cell \<Rightarrow> pyerror + datetime option) \<Rightarrow> archive \<Rightarrow> pyerror + TowerReport list" where
  "run_pipeline to_datetime zip_file = ebind (load_from_zip zip_file) (process_table to_datetime)"

section \<open>The end-to-end scenario\<close>

text \<open>
  The two rows of the scenario are equal. A row has the 123 columns of the input layout:
  the begin time at position 0, the element name at position 6, the pair (100, 100) at the
  positions of \<^verbatim>\<open>SN_ADDITION\<close>, the pair (1, 100) at the positions of \<^verbatim>\<open>ABNORMAL_SN_RELEASE\<close>, and
  one filler cell everywhere else. The cells for 100 and 1 and the filler are parameters, so
  that the scenario covers numbers and their texts, and zero and missing fillers.
\<close>

definition scenario_row :: "cell \<Rightarrow> cell \<Rightarrow> cell \<Rightarrow> cell list" where
  "scenario_row hundred one filler =
     (replicate 123 filler)
       [BEGIN_TIME := Str ''1/6/2026 0:00'',
        MANAGED_ELEMENT_NAME := Str ''NR_SUM-SU-AKR-0011_DU'',
        SN_ADDITION_NUM := hundred, SN_ADDITION_DEN := hundred,
        ABNORMAL_SN_RELEASE_NUM := one, ABNORMAL_SN_RELEASE_DEN := hundred]"

definition scenario_table :: "string list \<Rightarrow> cell \<Rightarrow> cell \<Rightarrow> cell \<Rightarrow> table" where
  "scenario_table names hundred one filler =
     \<lparr>columns = names,
      rows = [scenario_row hundred one filler, scenario_row hundred one filler]\<rparr>"

text \<open>The report the scenario expects, and the parsed row the pipeline derives on the way.\<close>

definition scenario_report :: TowerReport where
  "scenario_report =
     \<lparr>tower_id = ''SUM-SU-AKR-0011'', report_date = (2026, 1, 6),
      kpi_values = \<lparr>v_sgnb_add_success_rate = Some (Fin 100), v_sgnb_drop_rate = Some (Fin 1),
         v_dl_user_throughput = None, v_ul_user_throughput = None,
         v_dl_spectrum_efficiency = None\<rparr>,
      kpi_status = \<lparr>s_sgnb_add_success_rate = ''PASS'', s_sgnb_drop_rate = ''PASS'',
         s_dl_user_throughput = ''N/A'', s_ul_user_throughput = ''N/A'',
         s_dl_spectrum_efficiency = ''N/A''\<rparr>,
      overall_status = ''PASS''\<rparr>"

definition scenario_parsed_row :: "cell \<Rightarrow> cell \<Rightarrow> cell \<Rightarrow> parsed_row" where
  "scenario_parsed_row h e f =
     \<lparr>cells = clean_row 123 numeric_cols (scenario_row h e f),
      TOWERID = ''SUM-SU-AKR-0011'', DATE = Some (2026, 1, 6)\<rparr>"

text \<open>Some 123 distinct column names.\<close>

definition scenario_names :: "string list" where
  "scenario_names = map (\<lambda>i. replicate (Suc i) (CHR ''c'')) [0 ..< 123]"


section \<open>Safe division and evaluation: the claims\<close>

lemma truediv_nonzero:
  "d \<noteq> Fin 0 \<Longrightarrow> \<exists>q. truediv n d = Inr q"
  by (cases n; cases d) auto

text \<open>
  Claim C1. For every numerator, denominator and scale, \<open>safe_divide\<close> returns the missing
  marker \<^verbatim>\<open>None\<close> if and only if the denominator equals zero or one of the two operands is
  missing or not-a-number; in every other case the division raises nothing and the result
  is exactly the quotient times the scale.
\<close>

theorem safe_divide_missing_iff:
  "(safe_divide num den scale = Inr None \<longleftrightarrow>
      (den = Some (Fin 0) \<or> isna num \<or> isna den)) \<and>
   (\<not> (den = Some (Fin 0) \<or> isna num \<or> isna den) \<longrightarrow>
      (\<exists>n d q. num = Some n \<and> den = Some d \<and> truediv n d = Inr q \<and>
         safe_divide num den scale = Inr (Some (pmul q scale))))"
proof -
  have miss: "den = Some (Fin 0) \<or> isna num \<or> isna den \<Longrightarrow> safe_divide num den scale = Inr None"
    by (auto simp: safe_divide_def)
  have ok: "\<exists>n d q. num = Some n \<and> den = Some d \<and> truediv n d = Inr q \<and>
         safe_divide num den scale = Inr (Some (pmul q scale))"
    if h: "\<not> (den = Some (Fin 0) \<or> isna num \<or> isna den)"
  proof -
    from h obtain n d where nd: "num = Some n" "den = Some d" "d \<noteq> Fin 0"
      by (cases num; cases den) auto
    from truediv_nonzero [OF nd(3)] obtain q where q: "truediv n d = Inr q" by blast
    from h nd q have "safe_divide num den scale = Inr (Some (pmul q scale))"
      by (simp add: safe_divide_def)
    with nd q show ?thesis by blast
  qed
  from ok have "safe_divide num den scale \<noteq> Inr None"
    if "\<not> (den = Some (Fin 0) \<or> isna num \<or> isna den)"
    using that by fastforce
  with miss ok show ?thesis by blast
qed

theorem safe_divide_missing_iff_witness:
  "safe_divide (Some (Fin 1)) (Some (Fin 4)) (Fin 100) = Inr (Some (Fin 25)) \<and>
   safe_divide (Some (Fin 1)) (Some (Fin 0)) (Fin 100) = Inr None \<and>
   safe_divide (Some NaN) (Some (Fin 4)) (Fin 100) = Inr None \<and>
   safe_divide (Some (Fin 1)) None (Fin 100) = Inr None"
proof -
  have a: "\<not> (Some (Fin 4) = Some (Fin (0::real)) \<or> isna (Some (Fin 1)) \<or> isna (Some (Fin 4)))"
    by simp
  from safe_divide_missing_iff [where num = "Some (Fin 1)" and den = "Some (Fin 4)" and scale = "Fin 100"] a
  have "safe_divide (Some (Fin 1)) (Some (Fin 4)) (Fin 100) = Inr (Some (Fin 25))"
    by auto
  moreover have "safe_divide (Some (Fin 1)) (Some (Fin 0)) (Fin 100) = Inr None"
    using safe_divide_missing_iff [where num = "Some (Fin 1)" and den = "Some (Fin 0)" and scale = "Fin 100"] by simp
  moreover have "safe_divide (Some NaN) (Some (Fin 4)) (Fin 100) = Inr None"
    using safe_divide_missing_iff [where num = "Some NaN" and den = "Some (Fin 4)" and scale = "Fin 100"] by simp
  moreover have "safe_divide (Some (Fin 1)) None (Fin 100) = Inr None"
    using safe_divide_missing_iff [where num = "Some (Fin 1)" and den = None and scale = "Fin 100"] by simp
  ultimately show ?thesis by blast
qed

text \<open>
  Claim C3. For every value, threshold and direction among \<^verbatim>\<open>">="\<close> and \<^verbatim>\<open>"<="\<close>,
  \<open>evaluate_kpi\<close> returns \<^verbatim>\<open>"N/A"\<close> for the missing value \<^verbatim>\<open>None\<close>; for a present value it
  returns \<^verbatim>\<open>"PASS"\<close> exactly when the direction is \<^verbatim>\<open>">="\<close> and the value is at least the
  threshold, or the direction is \<^verbatim>\<open>"<="\<close> and the value is at most the threshold, and
  \<^verbatim>\<open>"FAIL"\<close> otherwise. A value equal to the threshold passes in both directions.
\<close>

theorem evaluate_kpi_directions:
  "compare \<in> {''>='', ''<=''} \<Longrightarrow>
     evaluate_kpi None threshold compare = ''N/A'' \<and>
     (evaluate_kpi (Some x) threshold compare = ''PASS'' \<longleftrightarrow>
        (compare = ''>='' \<and> pge x threshold) \<or> (compare = ''<='' \<and> ple x threshold)) \<and>
     (evaluate_kpi (Some x) threshold compare = ''FAIL'' \<longleftrightarrow>
        \<not> ((compare = ''>='' \<and> pge x threshold) \<or> (compare = ''<='' \<and> ple x threshold))) \<and>
     (peq x threshold \<longrightarrow> evaluate_kpi (Some x) threshold compare = ''PASS'')"
  by (cases x; cases threshold) (auto simp: evaluate_kpi_def pge_def peq_def)

theorem evaluate_kpi_directions_witness:
  "evaluate_kpi None (Fin 5) ''<='' = ''N/A'' \<and>
   evaluate_kpi (Some (Fin 5)) (Fin 5) ''<='' = ''PASS'' \<and>
   evaluate_kpi (Some (Fin 5)) (Fin 5) ''>='' = ''PASS'' \<and>
   evaluate_kpi (Some (Fin 6)) (Fin 5) ''<='' = ''FAIL'' \<and>
   evaluate_kpi (Some (Fin 4)) (Fin 5) ''>='' = ''FAIL''"
  using evaluate_kpi_directions [where compare = "''<=''" and x = "Fin 5" and threshold = "Fin 5"]
    evaluate_kpi_directions [where compare = "''>=''" and x = "Fin 5" and threshold = "Fin 5"]
    evaluate_kpi_directions [where compare = "''<=''" and x = "Fin 6" and threshold = "Fin 5"]
    evaluate_kpi_directions [where compare = "''>=''" and x = "Fin 4" and threshold = "Fin 5"]
  by (simp add: pge_def peq_def)

text \<open>
  Claim C10. For every present value, every threshold and every compare argument other than
  \<^verbatim>\<open>">="\<close> (such as \<^verbatim>\<open>"<"\<close>, \<^verbatim>\<open>">"\<close>, \<^verbatim>\<open>"=="\<close> or any other text), \<open>evaluate_kpi\<close> answers as it
  does for \<^verbatim>\<open>"<="\<close>: \<^verbatim>\<open>"PASS"\<close> exactly when the value is at most the threshold and \<^verbatim>\<open>"FAIL"\<close>
  otherwise. The operator is never rejected: the function has no failing branch.
\<close>

theorem evaluate_kpi_other_compare:
  "compare \<noteq> ''>='' \<Longrightarrow>
     evaluate_kpi (Some x) threshold compare = evaluate_kpi (Some x) threshold ''<='' \<and>
     (evaluate_kpi (Some x) threshold compare = ''PASS'' \<longleftrightarrow> ple x threshold) \<and>
     (evaluate_kpi (Some x) threshold compare = ''FAIL'' \<longleftrightarrow> \<not> ple x threshold)"
  by (auto simp: evaluate_kpi_def)

theorem evaluate_kpi_other_compare_witness:
  "evaluate_kpi (Some (Fin 3)) (Fin 5) ''>'' = ''PASS'' \<and>
   evaluate_kpi (Some (Fin 7)) (Fin 5) ''>'' = ''FAIL'' \<and>
   evaluate_kpi (Some (Fin 5)) (Fin 5) ''=='' = ''PASS'' \<and>
   evaluate_kpi (Some (Fin 7)) (Fin 5) ''at least'' = ''FAIL''"
  using evaluate_kpi_other_compare [where compare = "''>''" and x = "Fin 3" and threshold = "Fin 5"]
    evaluate_kpi_other_compare [where compare = "''>''" and x = "Fin 7" and threshold = "Fin 5"]
    evaluate_kpi_other_compare [where compare = "''==''" and x = "Fin 5" and threshold = "Fin 5"]
    evaluate_kpi_other_compare [where compare = "''at least''" and x = "Fin 7" and threshold = "Fin 5"]
  by auto

lemma evaluate_kpi_range:
  "evaluate_kpi v t c \<in> {''PASS'', ''FAIL'', ''N/A''}"
  by (simp add: evaluate_kpi_def split: option.split)

text \<open>
  Claim C2. For every set of five KPI values, the overall status returned by \<open>evaluate_all\<close>
  is \<^verbatim>\<open>"FAIL"\<close> if and only if at least one of the five statuses it returns is \<^verbatim>\<open>"FAIL"\<close>, and
  is \<^verbatim>\<open>"PASS"\<close> otherwise; each status is one of \<^verbatim>\<open>"PASS"\<close>, \<^verbatim>\<open>"FAIL"\<close> and \<^verbatim>\<open>"N/A"\<close>. Five missing
  values give five \<^verbatim>\<open>"N/A"\<close> statuses and the overall status \<^verbatim>\<open>"PASS"\<close>.
\<close>

theorem evaluate_all_overall:
  "(snd (evaluate_all kv) = ''FAIL'' \<longleftrightarrow>
      (s_sgnb_add_success_rate (fst (evaluate_all kv)) = ''FAIL'' \<or>
       s_sgnb_drop_rate (fst (evaluate_all kv)) = ''FAIL'' \<or>
       s_dl_user_throughput (fst (evaluate_all kv)) = ''FAIL'' \<or>
       s_ul_user_throughput (fst (evaluate_all kv)) = ''FAIL'' \<or>
       s_dl_spectrum_efficiency (fst (evaluate_all kv)) = ''FAIL'')) \<and>
   (snd (evaluate_all kv) = ''PASS'' \<longleftrightarrow> snd (evaluate_all kv) \<noteq> ''FAIL'') \<and>
   set (statuses (fst (evaluate_all kv))) \<subseteq> {''PASS'', ''FAIL'', ''N/A''} \<and>
   evaluate_all \<lparr>v_sgnb_add_success_rate = None, v_sgnb_drop_rate = None,
       v_dl_user_throughput = None, v_ul_user_throughput = None,
       v_dl_spectrum_efficiency = None\<rparr> =
     (\<lparr>s_sgnb_add_success_rate = ''N/A'', s_sgnb_drop_rate = ''N/A'',
       s_dl_user_throughput = ''N/A'', s_ul_user_throughput = ''N/A'',
       s_dl_spectrum_efficiency = ''N/A''\<rparr>, ''PASS'')"
proof -
  have a: "set (statuses (fst (evaluate_all kv))) \<subseteq> {''PASS'', ''FAIL'', ''N/A''}"
    using evaluate_kpi_range by (simp add: evaluate_all_def statuses_def Let_def)
  have b: "evaluate_all \<lparr>v_sgnb_add_success_rate = None, v_sgnb_drop_rate = None,
       v_dl_user_throughput = None, v_ul_user_throughput = None,
       v_dl_spectrum_efficiency = None\<rparr> =
     (\<lparr>s_sgnb_add_success_rate = ''N/A'', s_sgnb_drop_rate = ''N/A'',
       s_dl_user_throughput = ''N/A'', s_ul_user_throughput = ''N/A'',
       s_dl_spectrum_efficiency = ''N/A''\<rparr>, ''PASS'')"
    by (simp add: evaluate_all_def statuses_def evaluate_kpi_def)
  have c: "snd (evaluate_all kv) = ''FAIL'' \<longleftrightarrow>
      (s_sgnb_add_success_rate (fst (evaluate_all kv)) = ''FAIL'' \<or>
       s_sgnb_drop_rate (fst (evaluate_all kv)) = ''FAIL'' \<or>
       s_dl_user_throughput (fst (evaluate_all kv)) = ''FAIL'' \<or>
       s_ul_user_throughput (fst (evaluate_all kv)) = ''FAIL'' \<or>
       s_dl_spectrum_efficiency (fst (evaluate_all kv)) = ''FAIL'')"
    by (auto simp: evaluate_all_def statuses_def Let_def)
  have d: "snd (evaluate_all kv) = ''PASS'' \<longleftrightarrow> snd (evaluate_all kv) \<noteq> ''FAIL''"
    by (simp add: evaluate_all_def Let_def)
  from a b c d show ?thesis by blast
qed

theorem evaluate_all_overall_witness:
  "snd (evaluate_all \<lparr>v_sgnb_add_success_rate = Some (Fin 99), v_sgnb_drop_rate = Some (Fin 7),
       v_dl_user_throughput = None, v_ul_user_throughput = None,
       v_dl_spectrum_efficiency = None\<rparr>) = ''FAIL'' \<and>
   snd (evaluate_all \<lparr>v_sgnb_add_success_rate = Some (Fin 99), v_sgnb_drop_rate = Some (Fin 2),
       v_dl_user_throughput = None, v_ul_user_throughput = None,
       v_dl_spectrum_efficiency = None\<rparr>) = ''PASS''"
proof -
  let ?bad = "\<lparr>v_sgnb_add_success_rate = Some (Fin 99), v_sgnb_drop_rate = Some (Fin 7),
       v_dl_user_throughput = None, v_ul_user_throughput = None,
       v_dl_spectrum_efficiency = None\<rparr>"
  let ?good = "\<lparr>v_sgnb_add_success_rate = Some (Fin 99), v_sgnb_drop_rate = Some (Fin 2),
       v_dl_user_throughput = None, v_ul_user_throughput = None,
       v_dl_spectrum_efficiency = None\<rparr>"
  have fb: "fst (evaluate_all ?bad) =
      \<lparr>s_sgnb_add_success_rate = ''PASS'', s_sgnb_drop_rate = ''FAIL'',
       s_dl_user_throughput = ''N/A'', s_ul_user_throughput = ''N/A'',
       s_dl_spectrum_efficiency = ''N/A''\<rparr>"
    by (simp add: evaluate_all_def Let_def evaluate_kpi_def pge_def
        SGNB_ADD_SUCCESS_RATE_MIN_def SGNB_DROP_RATE_MAX_def)
  have fg: "fst (evaluate_all ?good) =
      \<lparr>s_sgnb_add_success_rate = ''PASS'', s_sgnb_drop_rate = ''PASS'',
       s_dl_user_throughput = ''N/A'', s_ul_user_throughput = ''N/A'',
       s_dl_spectrum_efficiency = ''N/A''\<rparr>"
    by (simp add: evaluate_all_def Let_def evaluate_kpi_def pge_def
        SGNB_ADD_SUCCESS_RATE_MIN_def SGNB_DROP_RATE_MAX_def)
  from evaluate_all_overall [of ?bad] fb have "snd (evaluate_all ?bad) = ''FAIL''" by simp
  moreover from evaluate_all_overall [of ?good] fg have "snd (evaluate_all ?good) = ''PASS''"
    by simp
  ultimately show ?thesis by blast
qed

section \<open>The site identifier: the claims\<close>

lemma rx_match_Plus_elem:
  assumes "m \<in> set (rx_match (Plus cs) s)"
  shows "m \<noteq> [] \<and> set m \<subseteq> set cs"
proof -
  let ?w = "takeWhile (\<lambda>c. c \<in> set cs) s"
  from assms obtain k where k: "1 \<le> k" "k \<le> length ?w" "m = take k s"
    by auto
  have "take k s = take k ?w"
    using k(2) by (metis takeWhile_dropWhile_id append_eq_conv_conj take_append
        diff_is_0_eq take_0 append_Nil2 take_take min.absorb1)
  moreover have "set ?w \<subseteq> set cs"
    by (auto dest: set_takeWhileD)
  moreover have "?w \<noteq> []" using k by auto
  ultimately show ?thesis
    using k by (auto dest: in_set_takeD)
qed

lemma rx_match_Cls_elem:
  "m \<in> set (rx_match (Cls cs) s) \<Longrightarrow> \<exists>c. m = [c] \<and> c \<in> set cs"
  by (cases s) (auto split: if_splits)

lemma rx_match_Plus_first:
  assumes "m \<noteq> []" "set m \<subseteq> set cs" "t = [] \<or> hd t \<notin> set cs"
  shows "\<exists>rest. rx_match (Plus cs) (m @ t) = m # rest"
proof -
  have tw: "takeWhile (\<lambda>c. c \<in> set cs) (m @ t) = m"
    using assms by (cases t) (auto simp: takeWhile_append2 subset_iff)
  from assms(1) obtain n where n: "length m = Suc n" by (cases m) auto
  show ?thesis
    by (simp add: tw n)
qed

lemma seq_match_Cons_elem:
  "p \<in> set (seq_match (r # rs) s) \<Longrightarrow>
     \<exists>m q. p = m # q \<and> m \<in> set (rx_match r s) \<and> q \<in> set (seq_match rs (drop (length m) s))"
  by auto

lemma dash_elem: "m \<in> set (rx_match (Cls ''-'') s) \<Longrightarrow> m = ''-''"
  by (drule rx_match_Cls_elem) auto

lemma seq_match_towerid_shape:
  assumes "p \<in> set (seq_match TOWERID_PATTERN s)"
  shows "towerid_shape p"
proof -
  from seq_match_Cons_elem [OF assms [unfolded TOWERID_PATTERN_def]]
  obtain u1 q1 where 1: "p = u1 # q1" "u1 \<in> set (rx_match (Plus upper) s)"
    "q1 \<in> set (seq_match [Cls ''-'', Plus upper, Cls ''-'', Plus upper, Cls ''-'', Plus digit]
        (drop (length u1) s))"
    by blast
  from seq_match_Cons_elem [OF 1(3)]
  obtain d1 q2 where 2: "q1 = d1 # q2" "d1 \<in> set (rx_match (Cls ''-'') (drop (length u1) s))"
    "q2 \<in> set (seq_match [Plus upper, Cls ''-'', Plus upper, Cls ''-'', Plus digit]
        (drop (length d1) (drop (length u1) s)))"
    by blast
  define s2 where "s2 = drop (length d1) (drop (length u1) s)"
  from seq_match_Cons_elem [OF 2(3) [folded s2_def]]
  obtain u2 q3 where 3: "q2 = u2 # q3" "u2 \<in> set (rx_match (Plus upper) s2)"
    "q3 \<in> set (seq_match [Cls ''-'', Plus upper, Cls ''-'', Plus digit] (drop (length u2) s2))"
    by blast
  from seq_match_Cons_elem [OF 3(3)]
  obtain d2 q4 where 4: "q3 = d2 # q4" "d2 \<in> set (rx_match (Cls ''-'') (drop (length u2) s2))"
    "q4 \<in> set (seq_match [Plus upper, Cls ''-'', Plus digit]
        (drop (length d2) (drop (length u2) s2)))"
    by blast
  define s4 where "s4 = drop (length d2) (drop (length u2) s2)"
  from seq_match_Cons_elem [OF 4(3) [folded s4_def]]
  obtain u3 q5 where 5: "q4 = u3 # q5" "u3 \<in> set (rx_match (Plus upper) s4)"
    "q5 \<in> set (seq_match [Cls ''-'', Plus digit] (drop (length u3) s4))"
    by blast
  from seq_match_Cons_elem [OF 5(3)]
  obtain d3 q6 where 6: "q5 = d3 # q6" "d3 \<in> set (rx_match (Cls ''-'') (drop (length u3) s4))"
    "q6 \<in> set (seq_match [Plus digit] (drop (length d3) (drop (length u3) s4)))"
    by blast
  define s6 where "s6 = drop (length d3) (drop (length u3) s4)"
  from seq_match_Cons_elem [OF 6(3) [folded s6_def]]
  obtain d q7 where 7: "q6 = d # q7" "d \<in> set (rx_match (Plus digit) s6)"
    "q7 \<in> set (seq_match [] (drop (length d) s6))"
    by blast
  from 7(3) have 8: "q7 = []" by simp
  have "p = [u1, ''-'', u2, ''-'', u3, ''-'', d]"
    using 1(1) 2(1) 3(1) 4(1) 5(1) 6(1) 7(1) 8 dash_elem [OF 2(2)] dash_elem [OF 4(2)]
      dash_elem [OF 6(2)]
    by simp
  then show ?thesis
    unfolding towerid_shape_def
    using rx_match_Plus_elem [OF 1(2)] rx_match_Plus_elem [OF 3(2)]
      rx_match_Plus_elem [OF 5(2)] rx_match_Plus_elem [OF 7(2)]
    by blast
qed

lemma dash_not_upper: "CHR ''-'' \<notin> set upper"
  by (simp add: upper_def)

lemma seq_match_step:
  assumes "\<exists>rest. rx_match r (m @ t) = m # rest" "\<exists>rest. seq_match rs t = q # rest"
  shows "\<exists>rest. seq_match (r # rs) (m @ t) = (m # q) # rest"
  using assms by (auto simp del: rx_match.simps)

lemma dash_first: "\<exists>rest. rx_match (Cls ''-'') (''-'' @ t) = ''-'' # rest"
  by simp

lemma upper_first:
  assumes "u \<noteq> []" "set u \<subseteq> set upper"
  shows "\<exists>rest. rx_match (Plus upper) (u @ ''-'' @ t) = u # rest"
  using rx_match_Plus_first [OF assms, of "''-'' @ t"] dash_not_upper by simp

lemma towerid_shape_rematch:
  assumes "towerid_shape p"
  shows "\<exists>rest. seq_match TOWERID_PATTERN (concat p) = p # rest"
proof -
  from assms obtain u1 u2 u3 d where p: "p = [u1, ''-'', u2, ''-'', u3, ''-'', d]"
    and u: "u1 \<noteq> []" "set u1 \<subseteq> set upper" "u2 \<noteq> []" "set u2 \<subseteq> set upper"
      "u3 \<noteq> []" "set u3 \<subseteq> set upper" "d \<noteq> []" "set d \<subseteq> set digit"
    unfolding towerid_shape_def by blast
  have m8: "\<exists>rest. seq_match [] [] = [] # rest"
    by simp
  have d7: "\<exists>rest. rx_match (Plus digit) (d @ []) = d # rest"
    by (rule rx_match_Plus_first [OF u(7,8)]) simp
  note m7 = seq_match_step [OF d7 m8]
  note m6 = seq_match_step [OF dash_first m7]
  note m5 = seq_match_step [OF upper_first [OF u(5,6)] m6]
  note m4 = seq_match_step [OF dash_first m5]
  note m3 = seq_match_step [OF upper_first [OF u(3,4)] m4]
  note m2 = seq_match_step [OF dash_first m3]
  note m1 = seq_match_step [OF upper_first [OF u(1,2)] m2]
  from m1 show ?thesis by (simp add: p TOWERID_PATTERN_def del: seq_match.simps rx_match.simps)
qed

lemma re_match_elem:
  "re_match rs s = Some p \<Longrightarrow> p \<in> set (seq_match rs s)"
  by (auto simp: re_match_def split: list.splits)

lemma re_search_elem:
  "re_search rs s = Some p \<Longrightarrow> \<exists>t. p \<in> set (seq_match rs t)"
proof (induction s)
  case Nil
  then show ?case by (auto dest: re_match_elem)
next
  case (Cons c cs)
  then show ?case
    by (cases "re_match rs (c # cs)") (auto dest: re_match_elem)
qed

lemma re_search_first:
  "re_match rs s = Some p \<Longrightarrow> re_search rs s = Some p"
  by (cases s) auto

text \<open>
  Claim C8. Site-identifier extraction is idempotent: for every text \<open>s\<close>, extracting from
  the extracted identifier gives the same identifier. A text with no match gives the
  sentinel \<^verbatim>\<open>"UNKNOWN"\<close>, and extracting from \<^verbatim>\<open>"UNKNOWN"\<close> gives \<^verbatim>\<open>"UNKNOWN"\<close> again.
\<close>

theorem extract_tower_id_idempotent:
  "extract_tower_id (extract_tower_id s) = extract_tower_id s \<and>
   (re_search TOWERID_PATTERN s = None \<longrightarrow> extract_tower_id s = ''UNKNOWN'') \<and>
   extract_tower_id ''UNKNOWN'' = ''UNKNOWN''"
proof -
  have unk: "extract_tower_id ''UNKNOWN'' = ''UNKNOWN''"
    by (simp add: extract_tower_id_def TOWERID_PATTERN_def re_match_def upper_def)
  have idem: "extract_tower_id (extract_tower_id s) = extract_tower_id s"
  proof (cases "re_search TOWERID_PATTERN s")
    case None
    then have "extract_tower_id s = ''UNKNOWN''" by (simp add: extract_tower_id_def)
    with unk show ?thesis by simp
  next
    case (Some p)
    then obtain t where "p \<in> set (seq_match TOWERID_PATTERN t)"
      by (blast dest: re_search_elem)
    then have "towerid_shape p" by (rule seq_match_towerid_shape)
    then obtain rest where "seq_match TOWERID_PATTERN (concat p) = p # rest"
      by (blast dest: towerid_shape_rematch)
    then have "re_search TOWERID_PATTERN (concat p) = Some p"
      by (intro re_search_first) (simp add: re_match_def)
    with Some show ?thesis by (simp add: extract_tower_id_def)
  qed
  from unk idem show ?thesis by (simp add: extract_tower_id_def)
qed

theorem extract_tower_id_idempotent_witness:
  "extract_tower_id ''NR_SUM-SU-AKR-0011_DU'' = ''SUM-SU-AKR-0011'' \<and>
   extract_tower_id ''SUM-SU-AKR-0011'' = ''SUM-SU-AKR-0011'' \<and>
   re_search TOWERID_PATTERN ''no site'' = None \<and>
   extract_tower_id ''no site'' = ''UNKNOWN''"
proof -
  have e: "extract_tower_id ''NR_SUM-SU-AKR-0011_DU'' = ''SUM-SU-AKR-0011''"
    by (simp add: extract_tower_id_def TOWERID_PATTERN_def re_match_def upper_def digit_def)
  have n: "re_search TOWERID_PATTERN ''no site'' = None"
    by (simp add: TOWERID_PATTERN_def re_match_def upper_def)
  from extract_tower_id_idempotent [of "''NR_SUM-SU-AKR-0011_DU''"] e
  have "extract_tower_id ''SUM-SU-AKR-0011'' = ''SUM-SU-AKR-0011''" by simp
  moreover from extract_tower_id_idempotent [of "''no site''"] n
  have "extract_tower_id ''no site'' = ''UNKNOWN''" by simp
  ultimately show ?thesis using e n by blast
qed

section \<open>The report date: the claims\<close>

lemmas strptime_eval =
  strptime_def re_match_def directive_def digit_def digit19_def whitespace_def group_int_def
  int_of_def digit_val_def valid_datetime_def days_in_month_def is_leap_def






section \<open>The cleaner: the claims\<close>

lemma clean_cell_idem: "clean_cell (clean_cell c) = clean_cell c"
  by (cases c) (auto simp: clean_cell_def)

lemma clean_cell_is_number: "is_number (clean_cell c)"
  by (cases c) (auto simp: clean_cell_def is_number_def)

lemma clean_dataframe_rows:
  "clean_dataframe df cols =
     df\<lparr>rows := map (clean_row (length (columns df)) cols) (rows df)\<rparr>"
proof (induction cols arbitrary: df)
  case Nil
  show ?case by (simp add: clean_dataframe_def clean_row_def)
next
  case (Cons i cols)
  have step: "clean_dataframe df (i # cols) =
      clean_dataframe (if i < length (columns df) then clean_column i df else df) cols"
    by (simp add: clean_dataframe_def)
  show ?case
    unfolding step Cons.IH
    by (simp add: clean_column_def clean_row_def comp_def)
qed

lemma length_clean_row: "length (clean_row n cols r) = length r"
  unfolding clean_row_def by (induction cols arbitrary: r) auto

lemma clean_row_nth:
  "i < length r \<Longrightarrow>
   clean_row n cols r ! i = (if i \<in> set cols \<and> i < n then clean_cell (r ! i) else r ! i)"
proof (induction cols arbitrary: r)
  case Nil
  then show ?case by (simp add: clean_row_def)
next
  case (Cons j cols)
  let ?r' = "if j < n then r[j := clean_cell (r ! j)] else r"
  have unf: "clean_row n (j # cols) r = clean_row n cols ?r'"
    by (simp add: clean_row_def)
  have len: "i < length ?r'" using Cons.prems by simp
  show ?case
  proof (cases "i = j")
    case True
    then show ?thesis
      unfolding unf Cons.IH [OF len]
      using Cons.prems by (simp add: clean_cell_idem)
  next
    case False
    then show ?thesis
      unfolding unf Cons.IH [OF len]
      using Cons.prems by auto
  qed
qed

text \<open>
  Claim C9, as the code has it. For every table and every designated column position inside
  the table, \<open>clean_dataframe\<close> raises nothing, keeps the columns and the number of rows, and
  leaves in every cell of that column a number: a finite number, an infinity, or the missing
  marker \<^verbatim>\<open>nan\<close>; never a text. A text cell becomes what the coercion makes of the text
  without its percent signs and commas, the missing marker if that text is empty or spells
  no number.
\<close>

theorem clean_dataframe_numbers:
  "c \<in> set numeric_columns \<Longrightarrow> c < length (columns df) \<Longrightarrow>
   columns (clean_dataframe df numeric_columns) = columns df \<and>
   length (rows (clean_dataframe df numeric_columns)) = length (rows df) \<and>
   (\<forall>k < length (rows df). c < length (rows df ! k) \<longrightarrow>
      is_number (rows (clean_dataframe df numeric_columns) ! k ! c) \<and>
      rows (clean_dataframe df numeric_columns) ! k ! c = clean_cell (rows df ! k ! c) \<and>
      (\<forall>s. rows df ! k ! c = Str s \<longrightarrow>
         rows (clean_dataframe df numeric_columns) ! k ! c =
           (if strip_formatting s = [] then Num NaN
            else Num (to_numeric (strip_formatting s)))))"
  by (auto simp: clean_dataframe_rows clean_row_nth clean_cell_is_number)
     (auto simp: clean_cell_def)

lemmas to_numeric_eval =
  to_numeric_def lower_def upper_def NUMERAL_def opt_def re_match_def blank_def digit_def
  numeral_value_def digits_of_def int_of_def digit_val_def

theorem clean_dataframe_numbers_witness:
  "rows (clean_dataframe \<lparr>columns = [''A'', ''B''], rows = [[Str ''95.5%'', Str ''x'']]\<rparr> [0]) ! 0 ! 0
     = Num (Fin (191 / 2)) \<and>
   rows (clean_dataframe \<lparr>columns = [''A'', ''B''], rows = [[Str ''n/a'', Str ''x'']]\<rparr> [0]) ! 0 ! 0
     = Num NaN"
proof -
  have a: "clean_cell (Str ''95.5%'') = Num (Fin (191 / 2))"
    by (simp add: clean_cell_def strip_formatting_def to_numeric_eval)
  have b: "clean_cell (Str ''n/a'') = Num NaN"
    by (simp add: clean_cell_def strip_formatting_def to_numeric_eval)
  from clean_dataframe_numbers
    [of 0 "[0]" "\<lparr>columns = [''A'', ''B''], rows = [[Str ''95.5%'', Str ''x'']]\<rparr>"] a
  have "rows (clean_dataframe \<lparr>columns = [''A'', ''B''], rows = [[Str ''95.5%'', Str ''x'']]\<rparr> [0])
      ! 0 ! 0 = Num (Fin (191 / 2))"
    by simp
  moreover from clean_dataframe_numbers
    [of 0 "[0]" "\<lparr>columns = [''A'', ''B''], rows = [[Str ''n/a'', Str ''x'']]\<rparr>"] b
  have "rows (clean_dataframe \<lparr>columns = [''A'', ''B''], rows = [[Str ''n/a'', Str ''x'']]\<rparr> [0])
      ! 0 ! 0 = Num NaN"
    by simp
  ultimately show ?thesis by blast
qed

text \<open>
  Claim C9 as stated asks for a finite number or the missing marker. The coercion reads the
  text \<^verbatim>\<open>inf\<close> as an infinity, so a cell of a designated column can end up infinite.
\<close>

theorem clean_dataframe_infinite_counterexample:
  "rows (clean_dataframe \<lparr>columns = [''SN_ADDITION_NUM''], rows = [[Str ''inf'']]\<rparr> [0]) ! 0 ! 0
     = Num PInf \<and>
   \<not> finite_or_missing
     (rows (clean_dataframe \<lparr>columns = [''SN_ADDITION_NUM''], rows = [[Str ''inf'']]\<rparr> [0]) ! 0 ! 0)"
  by (simp add: clean_dataframe_def clean_column_def clean_cell_def strip_formatting_def
      to_numeric_def lower_def upper_def finite_or_missing_def)

section \<open>The loader: the claims\<close>

lemma read_all_ok:
  "\<forall>f \<in> set fs. \<not> isl (zip_open z f) \<Longrightarrow>
     read_all z fs = Inr (map (\<lambda>f. projr (zip_open z f)) fs)"
proof (induction fs)
  case Nil
  show ?case by simp
next
  case (Cons f fs)
  then obtain df where "zip_open z f = Inr df" by (cases "zip_open z f") auto
  with Cons show ?case by simp
qed

lemma first_occurrence_absorb:
  assumes "set ys \<subseteq> set xs" "distinct xs"
  shows "rev (remdups (rev (xs @ ys))) = xs"
proof -
  have "remdups (rev ys @ rev xs) = remdups (rev xs)"
    using assms(1) by (intro remdups_append) simp
  also have "\<dots> = rev xs"
    using assms(2) by (simp add: distinct_remdups_id)
  finally show ?thesis by simp
qed

lemma union_columns_same:
  assumes "dfs \<noteq> []" "\<forall>df \<in> set dfs. columns df = cols" "distinct cols"
  shows "union_columns dfs = cols"
proof -
  from assms(1) obtain df rest where dfs: "dfs = df # rest" by (cases dfs) auto
  have "set (concat (map columns rest)) \<subseteq> set cols"
    using assms(2) dfs by auto
  moreover have "columns df = cols" using assms(2) dfs by simp
  ultimately show ?thesis
    unfolding union_columns_def dfs
    using first_occurrence_absorb [OF _ assms(3), of "concat (map columns rest)"] by simp
qed

lemma index_of_nth:
  "distinct xs \<Longrightarrow> i < length xs \<Longrightarrow> index_of (xs ! i) xs = Some i"
proof (induction xs arbitrary: i)
  case Nil
  then show ?case by simp
next
  case (Cons x xs)
  then show ?case by (cases i) auto
qed

lemma reindex_same:
  assumes "distinct (columns df)" "\<forall>r \<in> set (rows df). length r = length (columns df)"
  shows "reindex (columns df) df = rows df"
proof -
  have "map (\<lambda>c. case index_of c (columns df) of None \<Rightarrow> Num NaN | Some i \<Rightarrow> cell_at r i)
      (columns df) = r" if r: "length r = length (columns df)" for r
  proof (rule nth_equalityI)
    show "length (map (\<lambda>c. case index_of c (columns df) of None \<Rightarrow> Num NaN
        | Some i \<Rightarrow> cell_at r i) (columns df)) = length r"
      using r by simp
  next
    fix i assume "i < length (map (\<lambda>c. case index_of c (columns df) of None \<Rightarrow> Num NaN
        | Some i \<Rightarrow> cell_at r i) (columns df))"
    then have i: "i < length (columns df)" by simp
    with assms(1) r show "map (\<lambda>c. case index_of c (columns df) of None \<Rightarrow> Num NaN
        | Some i \<Rightarrow> cell_at r i) (columns df) ! i = r ! i"
      by (simp add: index_of_nth cell_at_def)
  qed
  with assms(2) show ?thesis
    unfolding reindex_def by (simp add: map_idI)
qed

lemma pd_concat_same:
  assumes "dfs \<noteq> []" "\<forall>df \<in> set dfs. columns df = cols" "distinct cols"
    "\<forall>df \<in> set dfs. \<forall>r \<in> set (rows df). length r = length cols"
  shows "pd_concat dfs = Inr \<lparr>columns = cols, rows = concat (map rows dfs)\<rparr>"
proof -
  have u: "union_columns dfs = cols" using assms(1-3) by (rule union_columns_same)
  have "reindex cols df = rows df" if "df \<in> set dfs" for df
  proof -
    from that assms(2-4) have "columns df = cols" "distinct (columns df)"
      "\<forall>r \<in> set (rows df). length r = length (columns df)" by auto
    with reindex_same [of df] show ?thesis by simp
  qed
  then have m: "map (reindex cols) dfs = map rows dfs"
    by (induction dfs) auto
  show ?thesis
    unfolding pd_concat_def u m using assms(1) by simp
qed

text \<open>
  Claim C7, as the code has it. \<open>load_from_zip\<close> raises the ingestion error whenever the
  archive has no eligible member, and so for an archive whose only member is named
  \<^verbatim>\<open>X_KPI(Counter).csv\<close>. Among the archives whose eligible members can all be read, it raises
  exactly when there is no eligible member; when there is one, it returns the tables of
  the eligible members concatenated in the order of the archive, the columns matched by
  name. When these tables share one layout, the rows of the result are their rows, one
  table after the other.
\<close>

theorem load_from_zip_outcomes:
  "(filter eligible (map fst z) = [] \<longrightarrow> load_from_zip z = Inl no_csv) \<and>
   load_from_zip [(''X_KPI(Counter).csv'', r)] = Inl no_csv \<and>
   ((\<forall>f \<in> set (filter eligible (map fst z)). \<not> isl (zip_open z f)) \<longrightarrow>
      (isl (load_from_zip z) \<longleftrightarrow> filter eligible (map fst z) = []) \<and>
      (filter eligible (map fst z) \<noteq> [] \<longrightarrow>
         load_from_zip z =
           Inr \<lparr>columns = union_columns (eligible_tables z),
                rows = concat (map (reindex (union_columns (eligible_tables z)))
                         (eligible_tables z))\<rparr> \<and>
         (distinct cols \<and>
          (\<forall>df \<in> set (eligible_tables z). columns df = cols \<and>
             (\<forall>r \<in> set (rows df). length r = length cols)) \<longrightarrow>
            load_from_zip z =
              Inr \<lparr>columns = cols, rows = concat (map rows (eligible_tables z))\<rparr>)))"
proof -
  have a: "load_from_zip z = Inl no_csv" if "filter eligible (map fst z) = []"
    using that by (simp add: load_from_zip_def no_csv_def)
  have b: "load_from_zip [(''X_KPI(Counter).csv'', r)] = Inl no_csv"
    by (simp add: load_from_zip_def no_csv_def eligible_def endswith_def)
  have c: "load_from_zip z = pd_concat (eligible_tables z) \<and> eligible_tables z \<noteq> []"
    if "filter eligible (map fst z) \<noteq> []"
      "\<forall>f \<in> set (filter eligible (map fst z)). \<not> isl (zip_open z f)"
    using that read_all_ok [OF that(2)]
    by (simp add: load_from_zip_def eligible_tables_def)
  have d: "load_from_zip z =
        Inr \<lparr>columns = union_columns (eligible_tables z),
             rows = concat (map (reindex (union_columns (eligible_tables z)))
                      (eligible_tables z))\<rparr>"
    if "filter eligible (map fst z) \<noteq> []"
      "\<forall>f \<in> set (filter eligible (map fst z)). \<not> isl (zip_open z f)"
    using c [OF that] by (simp add: pd_concat_def)
  have e: "load_from_zip z = Inr \<lparr>columns = cols, rows = concat (map rows (eligible_tables z))\<rparr>"
    if "filter eligible (map fst z) \<noteq> []"
      "\<forall>f \<in> set (filter eligible (map fst z)). \<not> isl (zip_open z f)"
      "distinct cols" "\<forall>df \<in> set (eligible_tables z). columns df = cols \<and>
          (\<forall>r \<in> set (rows df). length r = length cols)"
  proof -
    from c [OF that(1,2)] have 1: "load_from_zip z = pd_concat (eligible_tables z)"
      and 2: "eligible_tables z \<noteq> []" by simp_all
    from that(4) have 3: "\<forall>df \<in> set (eligible_tables z). columns df = cols"
      and 4: "\<forall>df \<in> set (eligible_tables z). \<forall>r \<in> set (rows df). length r = length cols"
      by simp_all
    from pd_concat_same [OF 2 3 that(3) 4] 1 show ?thesis by simp
  qed
  have f: "isl (load_from_zip z) \<longleftrightarrow> filter eligible (map fst z) = []"
    if "\<forall>f \<in> set (filter eligible (map fst z)). \<not> isl (zip_open z f)"
  proof (cases "filter eligible (map fst z) = []")
    case True
    with a show ?thesis by simp
  next
    case False
    from d [OF False that] False show ?thesis by simp
  qed
  from a b d e f show ?thesis by blast
qed

theorem load_from_zip_outcomes_witness:
  "load_from_zip
     [(''day1.csv'', Inr \<lparr>columns = [''t'', ''n''], rows = [[Str ''a'', Num (Fin 1)]]\<rparr>),
      (''day1_KPI(Counter).csv'', Inr \<lparr>columns = [''k''], rows = [[Str ''c'']]\<rparr>),
      (''day2.csv'', Inr \<lparr>columns = [''t'', ''n''], rows = [[Str ''b'', Num (Fin 2)]]\<rparr>)]
     = Inr \<lparr>columns = [''t'', ''n''],
            rows = [[Str ''a'', Num (Fin 1)], [Str ''b'', Num (Fin 2)]]\<rparr> \<and>
   load_from_zip [(''X_KPI(Counter).csv'', Inr \<lparr>columns = [''k''], rows = [[Str ''c'']]\<rparr>)]
     = Inl no_csv"
proof -
  let ?t1 = "\<lparr>columns = [''t'', ''n''], rows = [[Str ''a'', Num (Fin 1)]]\<rparr>"
  let ?t2 = "\<lparr>columns = [''t'', ''n''], rows = [[Str ''b'', Num (Fin 2)]]\<rparr>"
  let ?t3 = "\<lparr>columns = [''k''], rows = [[Str ''c'']]\<rparr>"
  let ?z = "[(''day1.csv'', Inr ?t1), (''day1_KPI(Counter).csv'', Inr ?t3),
      (''day2.csv'', Inr ?t2)] :: archive"
  have names: "filter eligible (map fst ?z) = [''day1.csv'', ''day2.csv'']"
    by (simp add: eligible_def endswith_def)
  have tabs: "eligible_tables ?z = [?t1, ?t2]"
    unfolding eligible_tables_def names by (simp add: zip_open_def)
  have ok: "\<forall>f \<in> set (filter eligible (map fst ?z)). \<not> isl (zip_open ?z f)"
    unfolding names by (simp add: zip_open_def)
  have ne: "filter eligible (map fst ?z) \<noteq> []"
    unfolding names by simp
  have lay: "distinct [''t'', ''n''] \<and>
      (\<forall>df \<in> set (eligible_tables ?z). columns df = [''t'', ''n''] \<and>
         (\<forall>r \<in> set (rows df). length r = length [''t'', ''n'']))"
    unfolding tabs by simp
  from load_from_zip_outcomes [where z = ?z and cols = "[''t'', ''n'']"] ok ne lay
  have "load_from_zip ?z = Inr \<lparr>columns = [''t'', ''n''],
      rows = concat (map rows (eligible_tables ?z))\<rparr>"
    by blast
  then have 1: "load_from_zip ?z = Inr \<lparr>columns = [''t'', ''n''],
      rows = [[Str ''a'', Num (Fin 1)], [Str ''b'', Num (Fin 2)]]\<rparr>"
    unfolding tabs by simp
  from load_from_zip_outcomes [where r = "Inr ?t3"]
  have 2: "load_from_zip [(''X_KPI(Counter).csv'', Inr ?t3)] = Inl no_csv"
    by blast
  from 1 2 show ?thesis by blast
qed


text \<open>
  Claim C7 as stated promises that no error is raised as soon as one eligible member
  exists. The loader does not catch what the reader raises: an eligible member that cannot
  be read, an empty file for one, ends the load with the reader's exception.
\<close>

theorem load_from_zip_unreadable_counterexample:
  "filter eligible (map fst [(''data.csv'', Inl (OtherError ''EmptyDataError'') :: pyerror + table)])
     = [''data.csv''] \<and>
   load_from_zip [(''data.csv'', Inl (OtherError ''EmptyDataError''))]
     = Inl (OtherError ''EmptyDataError'')"
  by (simp add: load_from_zip_def eligible_def endswith_def zip_open_def)

section \<open>The end-to-end scenario: the claims\<close>

lemmas ColumnIndex_defs =
  BEGIN_TIME_def MANAGED_ELEMENT_NAME_def SN_ADDITION_NUM_def ABNORMAL_SN_RELEASE_NUM_def
  DL_SE_MAPPING_NUM_def DL_UE_THROUGHPUT_NUM_def UL_UE_THROUGHPUT_NUM_def SN_ADDITION_DEN_def
  ABNORMAL_SN_RELEASE_DEN_def DL_SE_MAPPING_DEN_def DL_UE_THROUGHPUT_DEN_def
  UL_UE_THROUGHPUT_DEN_def

lemma scenario_row_cells:
  "length (scenario_row h e f) = 123"
  "scenario_row h e f ! 0 = Str ''1/6/2026 0:00''"
  "scenario_row h e f ! 6 = Str ''NR_SUM-SU-AKR-0011_DU''"
  "scenario_row h e f ! 21 = h" "scenario_row h e f ! 22 = h"
  "scenario_row h e f ! 24 = e" "scenario_row h e f ! 25 = h"
  "scenario_row h e f ! 35 = f" "scenario_row h e f ! 36 = f"
  "scenario_row h e f ! 90 = f" "scenario_row h e f ! 91 = f"
  "scenario_row h e f ! 121 = f" "scenario_row h e f ! 122 = f"
  by (simp_all add: scenario_row_def ColumnIndex_defs)

lemma cleaned_scenario_cells:
  fixes h e f
  defines "r \<equiv> clean_row 123 numeric_cols (scenario_row h e f)"
  shows "cell_at r 0 = Str ''1/6/2026 0:00''"
    "cell_at r 6 = Str ''NR_SUM-SU-AKR-0011_DU''"
    "cell_at r 21 = clean_cell h" "cell_at r 22 = clean_cell h"
    "cell_at r 24 = clean_cell e" "cell_at r 25 = clean_cell h"
    "cell_at r 35 = clean_cell f" "cell_at r 36 = clean_cell f"
    "cell_at r 90 = clean_cell f" "cell_at r 91 = clean_cell f"
    "cell_at r 121 = clean_cell f" "cell_at r 122 = clean_cell f"
  unfolding r_def cell_at_def
  by (simp_all add: length_clean_row clean_row_nth scenario_row_cells numeric_cols_def
      ColumnIndex_defs)

lemma scenario_tower: "tower_of_cell (Str ''NR_SUM-SU-AKR-0011_DU'') = ''SUM-SU-AKR-0011''"
  by (simp add: tower_of_cell_def extract_tower_id_def TOWERID_PATTERN_def re_match_def
      upper_def digit_def)

lemma scenario_date: "parse_date td (Str ''1/6/2026 0:00'') = Some (2026, 1, 6)"
  by (simp add: parse_date_def parse_date_try_def formats_def strptime_eval date_of_def)

lemma scenario_parsed:
  assumes "length names = 123"
  shows "add_parsed_columns td (clean_dataframe (scenario_table names h e f) numeric_cols) =
    Inr \<lparr>pcolumns = names @ [''TOWERID'', ''DATE''],
         prows = [scenario_parsed_row h e f, scenario_parsed_row h e f]\<rparr>"
  using assms
  by (simp add: clean_dataframe_rows add_parsed_columns_def scenario_table_def
      scenario_parsed_row_def cleaned_scenario_cells [unfolded ColumnIndex_defs]
      scenario_tower scenario_date ColumnIndex_defs)

lemma scenario_sums:
  assumes "length names = 123" "clean_cell h = Num (Fin 100)" "clean_cell e = Num (Fin 1)"
    "clean_cell f = Num (Fin 0) \<or> clean_cell f = Num NaN"
  defines "g \<equiv> \<lparr>pcolumns = names @ [''TOWERID'', ''DATE''],
         prows = [scenario_parsed_row h e f, scenario_parsed_row h e f]\<rparr>"
  shows "column_sum g 21 = Inr (Fin 200)" "column_sum g 22 = Inr (Fin 200)"
    "column_sum g 24 = Inr (Fin 2)" "column_sum g 25 = Inr (Fin 200)"
    "column_sum g 35 = Inr (Fin 0)" "column_sum g 36 = Inr (Fin 0)"
    "column_sum g 90 = Inr (Fin 0)" "column_sum g 91 = Inr (Fin 0)"
    "column_sum g 121 = Inr (Fin 0)" "column_sum g 122 = Inr (Fin 0)"
  using assms(1-4) unfolding g_def
  by (auto simp: column_sum_def series_sum_def nansum_def is_number_def scenario_parsed_row_def
      cleaned_scenario_cells)

lemma scenario_kpis:
  assumes "length names = 123" "clean_cell h = Num (Fin 100)" "clean_cell e = Num (Fin 1)"
    "clean_cell f = Num (Fin 0) \<or> clean_cell f = Num NaN"
  shows "calculate_kpis \<lparr>pcolumns = names @ [''TOWERID'', ''DATE''],
         prows = [scenario_parsed_row h e f, scenario_parsed_row h e f]\<rparr> =
      Inr (kpi_values scenario_report)"
  unfolding calculate_kpis_def ColumnIndex_defs scenario_sums [OF assms]
  by (simp add: ebind_def safe_divide_def scenario_report_def)

lemma scenario_evaluate:
  "evaluate_all (kpi_values scenario_report) =
     (kpi_status scenario_report, overall_status scenario_report)"
  by (simp add: scenario_report_def evaluate_all_def statuses_def evaluate_kpi_def pge_def
      SGNB_ADD_SUCCESS_RATE_MIN_def SGNB_DROP_RATE_MAX_def)

lemma scenario_reports:
  assumes "length names = 123" "clean_cell h = Num (Fin 100)" "clean_cell e = Num (Fin 1)"
    "clean_cell f = Num (Fin 0) \<or> clean_cell f = Num NaN"
  shows "process_table td (scenario_table names h e f) = Inr [scenario_report]"
proof -
  let ?p = "\<lparr>pcolumns = names @ [''TOWERID'', ''DATE''],
         prows = [scenario_parsed_row h e f, scenario_parsed_row h e f]\<rparr>"
  let ?k = "(''SUM-SU-AKR-0011'', (2026::nat, 1::nat, 6::nat))"
  have key: "row_key (scenario_parsed_row h e f) = Some ?k"
    by (simp add: row_key_def scenario_parsed_row_def)
  have keys: "group_keys ?p = [?k]"
    by (simp add: group_keys_def List.map_filter_simps key)
  have grp: "get_group ?p ?k = ?p"
    by (simp add: get_group_def key)
  have rep: "make_report ?p ?k = Inr scenario_report"
    unfolding make_report_def grp scenario_kpis [OF assms]
    by (simp add: ebind_def scenario_evaluate) (simp add: scenario_report_def)
  have col: "collect (make_report ?p) (group_keys ?p) = Inr [scenario_report]"
    unfolding keys collect.simps rep by simp
  show ?thesis
    unfolding process_table_def Let_def scenario_parsed [OF assms(1)] ebind_def
    by (simp only: sum.case col)
qed

lemma scenario_clean_cells:
  "h \<in> {Num (Fin 100), Str ''100''} \<Longrightarrow> clean_cell h = Num (Fin 100)"
  "e \<in> {Num (Fin 1), Str ''1''} \<Longrightarrow> clean_cell e = Num (Fin 1)"
  "f \<in> {Num (Fin 0), Num NaN, Str ''0'', Str []} \<Longrightarrow>
     clean_cell f = Num (Fin 0) \<or> clean_cell f = Num NaN"
proof -
  have a: "clean_cell (Str ''100'') = Num (Fin 100)"
    by (simp add: clean_cell_def strip_formatting_def to_numeric_eval)
  have b: "clean_cell (Str ''1'') = Num (Fin 1)"
    by (simp add: clean_cell_def strip_formatting_def to_numeric_eval)
  have c: "clean_cell (Str ''0'') = Num (Fin 0)"
    by (simp add: clean_cell_def strip_formatting_def to_numeric_eval)
  have d: "clean_cell (Str []) = Num NaN"
    by (simp add: clean_cell_def strip_formatting_def)
  have n: "clean_cell (Num x) = Num x" for x
    by (simp add: clean_cell_def)
  show "h \<in> {Num (Fin 100), Str ''100''} \<Longrightarrow> clean_cell h = Num (Fin 100)"
    using a n by auto
  show "e \<in> {Num (Fin 1), Str ''1''} \<Longrightarrow> clean_cell e = Num (Fin 1)"
    using b n by auto
  show "f \<in> {Num (Fin 0), Num NaN, Str ''0'', Str []} \<Longrightarrow>
     clean_cell f = Num (Fin 0) \<or> clean_cell f = Num NaN"
    using c d n by auto
qed

lemma scenario_load:
  assumes "length names = 123" "distinct names"
  shows "load_from_zip [(''export.csv'', Inr (scenario_table names h e f))] =
    Inr (scenario_table names h e f)"
proof -
  let ?t = "scenario_table names h e f"
  have c: "pd_concat [?t] = Inr \<lparr>columns = names, rows = concat (map rows [?t])\<rparr>"
    by (rule pd_concat_same)
      (use assms in \<open>auto simp: scenario_table_def scenario_row_cells\<close>)
  have "load_from_zip [(''export.csv'', Inr ?t)] = pd_concat [?t]"
    by (simp add: load_from_zip_def eligible_def endswith_def zip_open_def)
  with c show ?thesis by (simp add: scenario_table_def)
qed

lemma scenario_names_layout:
  "length scenario_names = 123" "distinct scenario_names"
  "''TOWERID'' \<notin> set scenario_names" "''DATE'' \<notin> set scenario_names"
proof -
  show "length scenario_names = 123" by (simp add: scenario_names_def)
  have "inj_on (\<lambda>i. replicate (Suc i) (CHR ''c'')) (set [0 ..< 123])"
    by (rule inj_onI) (metis length_replicate nat.inject)
  then show "distinct scenario_names"
    unfolding scenario_names_def by (simp add: distinct_map)
  show "''TOWERID'' \<notin> set scenario_names"
    unfolding scenario_names_def
    by auto
  show "''DATE'' \<notin> set scenario_names"
    unfolding scenario_names_def
    by auto
qed

text \<open>
  Claim C4. For the table of two rows that both have the element name
  \<^verbatim>\<open>NR_SUM-SU-AKR-0011_DU\<close> and the begin time \<^verbatim>\<open>1/6/2026 0:00\<close>, with (100, 100) in the
  \<^verbatim>\<open>SN_ADDITION\<close> columns, (1, 100) in the \<^verbatim>\<open>ABNORMAL_SN_RELEASE\<close> columns and the other metric
  columns zero or missing, the pipeline (clean, parse, group, calculate, evaluate) returns
  exactly one report. Its key is the site \<^verbatim>\<open>SUM-SU-AKR-0011\<close> and the date 2026-01-06, its
  SgNB add success rate is 100 with status PASS, its SgNB drop rate is 1 with status PASS,
  the three other metrics are missing with status N/A, and its overall status is PASS.
  Loading the table from an archive that holds it as its one eligible file gives the same
  reports. The table has the 123 columns of the input layout under distinct names, none of
  them \<^verbatim>\<open>TOWERID\<close> or \<^verbatim>\<open>DATE\<close>.
\<close>

theorem scenario_end_to_end:
  assumes "length names = 123" "distinct names" "''TOWERID'' \<notin> set names"
    "''DATE'' \<notin> set names"
    "hundred \<in> {Num (Fin 100), Str ''100''}" "one \<in> {Num (Fin 1), Str ''1''}"
    "filler \<in> {Num (Fin 0), Num NaN, Str ''0'', Str []}"
  shows "process_table to_datetime (scenario_table names hundred one filler) =
      Inr [\<lparr>tower_id = ''SUM-SU-AKR-0011'', report_date = (2026, 1, 6),
        kpi_values = \<lparr>v_sgnb_add_success_rate = Some (Fin 100),
           v_sgnb_drop_rate = Some (Fin 1), v_dl_user_throughput = None,
           v_ul_user_throughput = None, v_dl_spectrum_efficiency = None\<rparr>,
        kpi_status = \<lparr>s_sgnb_add_success_rate = ''PASS'', s_sgnb_drop_rate = ''PASS'',
           s_dl_user_throughput = ''N/A'', s_ul_user_throughput = ''N/A'',
           s_dl_spectrum_efficiency = ''N/A''\<rparr>,
        overall_status = ''PASS''\<rparr>] \<and>
    run_pipeline to_datetime [(''export.csv'', Inr (scenario_table names hundred one filler))] =
      process_table to_datetime (scenario_table names hundred one filler)"
proof -
  note cc = scenario_clean_cells(1) [OF assms(5)] scenario_clean_cells(2) [OF assms(6)]
    scenario_clean_cells(3) [OF assms(7)]
  have "process_table to_datetime (scenario_table names hundred one filler) =
      Inr [scenario_report]"
    using assms(1) cc by (rule scenario_reports)
  moreover have "run_pipeline to_datetime
      [(''export.csv'', Inr (scenario_table names hundred one filler))] =
      process_table to_datetime (scenario_table names hundred one filler)"
    unfolding run_pipeline_def scenario_load [OF assms(1,2)] by (simp add: ebind_def)
  ultimately show ?thesis by (simp add: scenario_report_def)
qed

theorem scenario_end_to_end_witness:
  "process_table (\<lambda>_. Inr None) (scenario_table scenario_names (Str ''100'') (Num (Fin 1)) (Str []))
     = Inr [\<lparr>tower_id = ''SUM-SU-AKR-0011'', report_date = (2026, 1, 6),
        kpi_values = \<lparr>v_sgnb_add_success_rate = Some (Fin 100),
           v_sgnb_drop_rate = Some (Fin 1), v_dl_user_throughput = None,
           v_ul_user_throughput = None, v_dl_spectrum_efficiency = None\<rparr>,
        kpi_status = \<lparr>s_sgnb_add_success_rate = ''PASS'', s_sgnb_drop_rate = ''PASS'',
           s_dl_user_throughput = ''N/A'', s_ul_user_throughput = ''N/A'',
           s_dl_spectrum_efficiency = ''N/A''\<rparr>,
        overall_status = ''PASS''\<rparr>]"
  using scenario_end_to_end [OF scenario_names_layout,
      of "Str ''100''" "Num (Fin 1)" "Str []" "\<lambda>_. Inr None"]
  by simp

section \<open>Aggregation: the claims\<close>
















end
